theory Spec2Isabelle
  imports Main
begin

section \<open>JavaScript values, errors and the runtime the script runs in\<close>

text \<open>
  The script \<^verbatim>\<open>automation/collect-data.js\<close> builds plain JavaScript objects from
  literals and serialises them. An object is kept as the list of its properties in
  insertion order, which is the order \<^verbatim>\<open>JSON.stringify\<close> writes them in.
\<close>

datatype json =
    JNull
  | JString string
  | JNumber int
  | JArray "json list"
  | JObject "(string \<times> json) list"

text \<open>Property read \<^verbatim>\<open>obj.k\<close>; \<open>None\<close> stands for \<^verbatim>\<open>undefined\<close>.\<close>

fun property :: "string \<Rightarrow> json \<Rightarrow> json option" where
  "property k (JObject kvs) = map_of kvs k"
| "property k v = None"

text \<open>A thrown value: Node's errors carry an optional \<^verbatim>\<open>code\<close> and a \<^verbatim>\<open>message\<close>.\<close>

datatype js_error = JsError (code: "string option") (message: string)

text \<open>
  The text handed to \<^verbatim>\<open>fs.writeFile\<close> is always \<^verbatim>\<open>JSON.stringify(data, null, 2)\<close>.
  The serialiser belongs to the runtime, so a file's text is kept as the value and the
  indentation it was serialised with. \<open>Partial n t\<close> is what a write that stopped early
  leaves behind: the first \<open>n\<close> characters of the text \<open>t\<close>.
\<close>

datatype file_text = JSON_stringify json nat | Partial nat file_text

text \<open>The arguments of \<^verbatim>\<open>axios.get(url, { headers, timeout })\<close>; the timeout is in milliseconds.\<close>

record http_request =
  url :: string
  headers :: "(string \<times> string) list"
  timeout :: nat

text \<open>A document loaded by \<^verbatim>\<open>cheerio.load\<close>, identified by the markup it was loaded from.\<close>

datatype cheerio = Cheerio string

text \<open>
  What the script cannot decide itself is supplied by the runtime: the directory of the
  script, the clock, the answer of the network to a request (\<open>Inl\<close> is a rejected promise:
  a timeout, a network error or a non-success status), whether the HTML library throws,
  and whether a directory creation or a file write fails. A write that fails may have
  failed before the file was opened (\<open>writeFile_partial\<close> is \<open>None\<close>: the file is
  untouched) or after (\<open>Some n\<close>: opening truncated the file, and \<open>n\<close> characters
  were written before the failure). The clock is indexed by the number of readings made
  so far.
\<close>

record runtime =
  dirname :: string
  clock :: "nat \<Rightarrow> string"
  net_response :: "http_request \<Rightarrow> js_error + string"
  html_load :: "string \<Rightarrow> js_error option"
  select_text :: "cheerio \<Rightarrow> string \<Rightarrow> js_error + string"
  mkdir_error :: "string \<Rightarrow> js_error option"
  writeFile_error :: "string \<Rightarrow> js_error option"
  writeFile_partial :: "string \<Rightarrow> nat option"

text \<open>One line of console output: \<^verbatim>\<open>console.log\<close> or \<^verbatim>\<open>console.error\<close> with its arguments.\<close>

datatype console_arg = Str string | Err js_error

datatype console_line = Log "console_arg list" | Error "console_arg list"

text \<open>
  Everything the script changes: the files and directories on disk, the console, the
  requests sent so far and the number of clock readings.
\<close>

record world =
  files :: "string \<rightharpoonup> file_text"
  dirs :: "string set"
  console :: "console_line list"
  requests :: "http_request list"
  ticks :: nat

text \<open>
  An \<^verbatim>\<open>async\<close> function is a function of the world that returns its settled promise
  (\<open>Inl\<close> rejected, \<open>Inr\<close> fulfilled) and the world it leaves. The script awaits every
  promise at once, so the steps run strictly one after another.
\<close>

type_synonym 'a io = "world \<Rightarrow> (js_error + 'a) \<times> world"

definition return_io :: "'a \<Rightarrow> 'a io" where
  "return_io x = (\<lambda>w. (Inr x, w))"

definition throw_io :: "js_error \<Rightarrow> 'a io" where
  "throw_io e = (\<lambda>w. (Inl e, w))"

definition bind_io :: "'a io \<Rightarrow> ('a \<Rightarrow> 'b io) \<Rightarrow> 'b io" where
  "bind_io m f = (\<lambda>w. case m w of (Inl e, w') \<Rightarrow> (Inl e, w') | (Inr x, w') \<Rightarrow> f x w')"

definition try_catch :: "'a io \<Rightarrow> (js_error \<Rightarrow> 'a io) \<Rightarrow> 'a io" where
  "try_catch m h = (\<lambda>w. case m w of (Inl e, w') \<Rightarrow> h e w' | (Inr x, w') \<Rightarrow> (Inr x, w'))"

subsection \<open>Runtime operations\<close>

definition console_log :: "console_arg list \<Rightarrow> unit io" where
  "console_log args = (\<lambda>w. (Inr (), w\<lparr>console := console w @ [Log args]\<rparr>))"

definition console_error :: "console_arg list \<Rightarrow> unit io" where
  "console_error args = (\<lambda>w. (Inr (), w\<lparr>console := console w @ [Error args]\<rparr>))"

definition new_Date_toISOString :: "runtime \<Rightarrow> string io" where
  "new_Date_toISOString rt = (\<lambda>w. (Inr (clock rt (ticks w)), w\<lparr>ticks := Suc (ticks w)\<rparr>))"

definition axios_get :: "runtime \<Rightarrow> http_request \<Rightarrow> string io" where
  "axios_get rt req = (\<lambda>w. (net_response rt req, w\<lparr>requests := requests w @ [req]\<rparr>))"

definition cheerio_load :: "runtime \<Rightarrow> string \<Rightarrow> cheerio io" where
  "cheerio_load rt markup =
     (case html_load rt markup of Some e \<Rightarrow> throw_io e | None \<Rightarrow> return_io (Cheerio markup))"

definition cheerio_text :: "runtime \<Rightarrow> cheerio \<Rightarrow> string \<Rightarrow> string io" where
  "cheerio_text rt doc selector =
     (case select_text rt doc selector of Inl e \<Rightarrow> throw_io e | Inr t \<Rightarrow> return_io t)"

text \<open>A failed \<^verbatim>\<open>mkdir\<close> rejects and creates nothing.\<close>

definition fs_mkdir :: "runtime \<Rightarrow> string \<Rightarrow> unit io" where
  "fs_mkdir rt dir =
     (\<lambda>w. case mkdir_error rt dir of
             Some e \<Rightarrow> (Inl e, w)
           | None \<Rightarrow> (Inr (), w\<lparr>dirs := insert dir (dirs w)\<rparr>))"

text \<open>
  \<^verbatim>\<open>fs.writeFile\<close> opens its target with flag \<^verbatim>\<open>w\<close>, which truncates it, and
  then writes. A failed write rejects; it leaves the target untouched when the failure
  came before the file was opened, and with a part of the text otherwise.
\<close>

definition failed_write ::
  "runtime \<Rightarrow> string \<Rightarrow> file_text \<Rightarrow> (string \<rightharpoonup> file_text) \<Rightarrow> (string \<rightharpoonup> file_text)" where
  "failed_write rt filepath txt disk =
     (case writeFile_partial rt filepath of
        None \<Rightarrow> disk
      | Some n \<Rightarrow> disk(filepath \<mapsto> Partial n txt))"

definition fs_writeFile :: "runtime \<Rightarrow> string \<Rightarrow> file_text \<Rightarrow> unit io" where
  "fs_writeFile rt filepath txt =
     (\<lambda>w. case writeFile_error rt filepath of
             Some e \<Rightarrow> (Inl e, w\<lparr>files := failed_write rt filepath txt (files w)\<rparr>)
           | None \<Rightarrow> (Inr (), w\<lparr>files := (files w)(filepath \<mapsto> txt)\<rparr>))"

text \<open>
  \<^verbatim>\<open>path.join\<close> of a directory and one plain name. (The normalisation of \<^verbatim>\<open>.\<close>,
  \<^verbatim>\<open>..\<close> and doubled separators does not arise: the names are literals without them.)
\<close>

definition path_join :: "string \<Rightarrow> string \<Rightarrow> string" where
  "path_join dir name = dir @ ''/'' @ name"

subsection \<open>Characters outside ASCII\<close>

text \<open>The console messages use a few symbols; they are written as their UTF-8 bytes.\<close>

definition check_mark :: string where
  "check_mark = [CHR 0xE2, CHR 0x9C, CHR 0x93]"

definition ballot_x :: string where
  "ballot_x = [CHR 0xE2, CHR 0x9C, CHR 0x97]"

definition warning_sign :: string where
  "warning_sign = [CHR 0xE2, CHR 0x9A, CHR 0xA0]"

definition bar_chart :: string where
  "bar_chart = [CHR 0xF0, CHR 0x9F, CHR 0x93, CHR 0x8A]"

definition box_horizontal :: string where
  "box_horizontal = [CHR 0xE2, CHR 0x95, CHR 0x90]"

definition box_vertical :: string where
  "box_vertical = [CHR 0xE2, CHR 0x95, CHR 0x91]"

definition box_down_right :: string where
  "box_down_right = [CHR 0xE2, CHR 0x95, CHR 0x94]"

definition box_down_left :: string where
  "box_down_left = [CHR 0xE2, CHR 0x95, CHR 0x97]"

definition box_up_right :: string where
  "box_up_right = [CHR 0xE2, CHR 0x95, CHR 0x9A]"

definition box_up_left :: string where
  "box_up_left = [CHR 0xE2, CHR 0x95, CHR 0x9D]"

definition rule60 :: string where
  "rule60 = concat (replicate 60 box_horizontal)"

definition newline :: string where
  "newline = [CHR 0x0A]"

section \<open>The Sink: \<^verbatim>\<open>ensureOutputDir\<close> and \<^verbatim>\<open>saveData\<close>\<close>

definition OUTPUT_DIR :: "runtime \<Rightarrow> string" where
  "OUTPUT_DIR rt = path_join (dirname rt) ''data''"

definition ensureOutputDir :: "runtime \<Rightarrow> unit io" where
  "ensureOutputDir rt =
     try_catch (fs_mkdir rt (OUTPUT_DIR rt))
       (\<lambda>err. if code err \<noteq> Some ''EEXIST'' then throw_io err else return_io ())"

definition saveData :: "runtime \<Rightarrow> string \<Rightarrow> json \<Rightarrow> unit io" where
  "saveData rt filename data =
     (let filepath = path_join (OUTPUT_DIR rt) filename in
      bind_io (fs_writeFile rt filepath (JSON_stringify data 2))
        (\<lambda>_. console_log [Str (check_mark @ '' Saved: '' @ filepath)]))"

section \<open>Datasets\<close>

text \<open>
  Every Collector starts from the object literal
  \<^verbatim>\<open>{ source, lastUpdated, category, statistics: [] }\<close> and later assigns further
  properties to it. The four properties of the literal are the fields of the record;
  \<open>sections\<close> holds the properties assigned afterwards, in assignment order.
\<close>

record dataset =
  source :: string
  lastUpdated :: string
  category :: string
  statistics :: "json list"
  sections :: "(string \<times> json) list"

text \<open>Assignment \<^verbatim>\<open>data.k = v\<close>: an existing property keeps its place, a new one goes last.\<close>

fun assign :: "string \<Rightarrow> json \<Rightarrow> (string \<times> json) list \<Rightarrow> (string \<times> json) list" where
  "assign k v [] = [(k, v)]"
| "assign k v ((k', v') # kvs) =
     (if k' = k then (k, v) # kvs else (k', v') # assign k v kvs)"

definition set_section :: "string \<Rightarrow> json \<Rightarrow> dataset \<Rightarrow> dataset" where
  "set_section k v d = d\<lparr>sections := assign k v (sections d)\<rparr>"

text \<open>\<^verbatim>\<open>data.statistics.push(e1, ..., en)\<close>.\<close>

definition push_statistics :: "json list \<Rightarrow> dataset \<Rightarrow> dataset" where
  "push_statistics es d = d\<lparr>statistics := statistics d @ es\<rparr>"

text \<open>The object as \<^verbatim>\<open>saveData\<close> receives it.\<close>

definition dataset_json :: "dataset \<Rightarrow> json" where
  "dataset_json d =
     JObject ([(''source'', JString (source d)),
               (''lastUpdated'', JString (lastUpdated d)),
               (''category'', JString (category d)),
               (''statistics'', JArray (statistics d))] @ sections d)"

definition user_agent :: "(string \<times> string) list" where
  "user_agent = [(''User-Agent'', ''Mozilla/5.0 (compatible; DataBot/1.0)'')]"

section \<open>Collector: CDC\<close>

definition cdcUrl :: string where
  "cdcUrl = ''https://www.cdc.gov/hiv/group/correctional.html''"

text \<open>The entry pushed inside the inner \<^verbatim>\<open>try\<close>, after the page was fetched and loaded.\<close>

definition cdc_live_statistic :: json where
  "cdc_live_statistic =
     JObject
    [(''metric'', JString ''HIV Rate in Prisons vs General Population''),
     (''value'', JString ''5x higher''),
     (''description'', JString ''Incarcerated individuals have HIV rates approximately 5 times higher than the general population''),
     (''source'', JString ''CDC Correctional Health'')]"

text \<open>The four entries pushed after the inner \<^verbatim>\<open>try\<close>/\<^verbatim>\<open>catch\<close>.\<close>

definition cdc_established_statistics :: "json list" where
  "cdc_established_statistics =
     [JObject
      [(''metric'', JString ''HIV Prevalence in State Prisons''),
       (''value'', JString ''1.3%''),
       (''comparison'', JString ''0.4% in general US population''),
       (''multiplier'', JString ''3.25x higher''),
       (''year'', JNumber 2019),
       (''source'', JString ''CDC HIV Surveillance Report'')],
     JObject
      [(''metric'', JString ''Women with HIV in Prison''),
       (''value'', JString ''1.9%''),
       (''description'', JString ''Female inmates have higher HIV rates than male inmates (1.3%)''),
       (''year'', JNumber 2019),
       (''source'', JString ''Bureau of Justice Statistics / CDC'')],
     JObject
      [(''metric'', JString ''AIDS-Related Deaths in Prison''),
       (''value'', JString ''Declining''),
       (''description'', JString ''Deaths have declined significantly with antiretroviral treatment availability''),
       (''source'', JString ''CDC'')],
     JObject
      [(''metric'', JString ''Hepatitis C in Prisons''),
       (''value'', JString ''17-25%''),
       (''description'', JString ''Hepatitis C rates are significantly elevated in correctional populations''),
       (''source'', JString ''CDC Viral Hepatitis'')]]"

definition cdc_keyFindings :: json where
  "cdc_keyFindings =
     JArray
    [JString ''Incarcerated populations face disproportionately high rates of HIV/AIDS'',
     JString ''Women in prison have higher HIV rates than incarcerated men'',
     JString ''African American women are disproportionately affected'',
     JString ''Lack of consistent healthcare post-release contributes to poor outcomes'',
     JString ''HIV testing and treatment in prisons has improved but gaps remain'']"

definition cdc_resources :: json where
  "cdc_resources =
     JArray
    [JObject
      [(''name'', JString ''CDC HIV and Corrections''),
       (''url'', JString ''https://www.cdc.gov/hiv/group/correctional.html'')],
     JObject
      [(''name'', JString ''CDC HIV Statistics''),
       (''url'', JString ''https://www.cdc.gov/hiv/statistics/overview/index.html'')]]"

text \<open>
  The push is the last statement of the inner \<^verbatim>\<open>try\<close>, so whenever the inner
  \<^verbatim>\<open>catch\<close> runs, \<^verbatim>\<open>data\<close> is still as it was before the \<^verbatim>\<open>try\<close>.
\<close>

definition collectCDCData :: "runtime \<Rightarrow> dataset option io" where
  "collectCDCData rt =
     bind_io (console_log [Str (newline @ bar_chart @ '' Collecting CDC HIV/AIDS Data...'')]) (\<lambda>_.
     bind_io (new_Date_toISOString rt) (\<lambda>now.
     let data = \<lparr>source = ''CDC - Centers for Disease Control and Prevention'',
                 lastUpdated = now,
                 category = ''HIV/AIDS in Correctional Settings'',
                 statistics = [],
                 sections = []\<rparr>
     in
     try_catch
       (bind_io
          (try_catch
             (bind_io (axios_get rt \<lparr>url = cdcUrl, headers = user_agent, timeout = 15000\<rparr>) (\<lambda>response.
              bind_io (cheerio_load rt response) (\<lambda>doc.
              bind_io (cheerio_text rt doc ''body'') (\<lambda>pageText.
              return_io (push_statistics [cdc_live_statistic] data)))))
             (\<lambda>err.
              bind_io (console_log
                [Str (''  '' @ warning_sign @ '' Could not fetch live CDC page, using cached statistics'')]) (\<lambda>_.
              return_io data)))
          (\<lambda>data.
           let data = push_statistics cdc_established_statistics data;
               data = set_section ''keyFindings'' cdc_keyFindings data;
               data = set_section ''resources'' cdc_resources data
           in
           bind_io (saveData rt ''cdc-hiv-aids.json'' (dataset_json data)) (\<lambda>_.
           return_io (Some data))))
       (\<lambda>error.
        bind_io (console_error
          [Str (''  '' @ ballot_x @ '' Error collecting CDC data:''), Str (message error)]) (\<lambda>_.
        return_io None))))"

section \<open>Collector: Missouri Department of Corrections\<close>

definition docUrl :: string where
  "docUrl = ''https://doc.mo.gov/media-center/newsroom/data-and-statistics''"

definition missouri_statistics :: "json list" where
  "missouri_statistics =
     [JObject
      [(''metric'', JString ''Total Missouri Prison Population''),
       (''value'', JString ''~23,000''),
       (''description'', JString ''Total individuals incarcerated in Missouri state prisons''),
       (''year'', JNumber 2024),
       (''source'', JString ''Missouri DOC'')],
     JObject
      [(''metric'', JString ''Female Prison Population in Missouri''),
       (''value'', JString ''~2,300''),
       (''percentage'', JString ''~10% of total''),
       (''description'', JString ''Women incarcerated in Missouri state facilities''),
       (''year'', JNumber 2024),
       (''source'', JString ''Missouri DOC'')],
     JObject
      [(''metric'', JString ''African American Incarceration Rate (Missouri)''),
       (''value'', JString ''5x higher''),
       (''description'', JString ''African Americans are incarcerated at 5 times the rate of whites in Missouri''),
       (''source'', JString ''Prison Policy Initiative / Missouri DOC'')],
     JObject
      [(''metric'', JString ''Women Released Annually (Missouri)''),
       (''value'', JString ''~3,000''),
       (''description'', JString ''Estimated number of women released from Missouri prisons annually''),
       (''source'', JString ''Missouri DOC Annual Reports'')],
     JObject
      [(''metric'', JString ''Primary Women's Facility''),
       (''value'', JString ''Chillicothe Correctional Center''),
       (''location'', JString ''Chillicothe, MO''),
       (''description'', JString ''Primary facility housing female offenders in Missouri''),
       (''source'', JString ''Missouri DOC'')]]"

definition missouri_reentryStatistics :: json where
  "missouri_reentryStatistics =
     JObject
    [(''description'', JString ''Challenges facing women returning from incarceration in Missouri''),
     (''challenges'', JArray
       [JObject
         [(''category'', JString ''Housing''),
          (''statistic'', JString ''60%+''),
          (''description'', JString ''Women face housing instability within first year of release'')],
        JObject
         [(''category'', JString ''Employment''),
          (''statistic'', JString ''27%''),
          (''description'', JString ''Unemployment rate for formerly incarcerated individuals (vs 4% general)'')],
        JObject
         [(''category'', JString ''Healthcare Access''),
          (''statistic'', JString ''70%''),
          (''description'', JString ''Formerly incarcerated women report difficulty accessing healthcare'')],
        JObject
         [(''category'', JString ''Mental Health''),
          (''statistic'', JString ''75%''),
          (''description'', JString ''Incarcerated women report history of mental health issues'')],
        JObject
         [(''category'', JString ''Substance Abuse''),
          (''statistic'', JString ''60%''),
          (''description'', JString ''Women in prison report substance abuse history'')],
        JObject
         [(''category'', JString ''Trauma History''),
          (''statistic'', JString ''86%''),
          (''description'', JString ''Incarcerated women report history of physical or sexual abuse'')]])]"

definition missouri_resources :: json where
  "missouri_resources =
     JArray
    [JObject
      [(''name'', JString ''Missouri DOC''),
       (''url'', JString ''https://doc.mo.gov/'')],
     JObject
      [(''name'', JString ''Missouri DOC Data & Statistics''),
       (''url'', JString ''https://doc.mo.gov/media-center/newsroom/data-and-statistics'')],
     JObject
      [(''name'', JString ''Missouri Reentry Process''),
       (''url'', JString ''https://doc.mo.gov/divisions/probation-parole/reentry'')]]"

definition collectMissouriData :: "runtime \<Rightarrow> dataset option io" where
  "collectMissouriData rt =
     bind_io (console_log
       [Str (newline @ bar_chart @ '' Collecting Missouri Department of Corrections Data...'')]) (\<lambda>_.
     bind_io (new_Date_toISOString rt) (\<lambda>now.
     let data = \<lparr>source = ''Missouri Department of Corrections'',
                 lastUpdated = now,
                 category = ''Missouri Incarceration Statistics'',
                 statistics = [],
                 sections = []\<rparr>
     in
     try_catch
       (bind_io
          (try_catch
             (bind_io (axios_get rt \<lparr>url = docUrl, headers = user_agent, timeout = 15000\<rparr>) (\<lambda>response.
              bind_io (cheerio_load rt response) (\<lambda>doc.
              console_log [Str (''  '' @ check_mark @ '' Fetched Missouri DOC page'')])))
             (\<lambda>err.
              console_log
                [Str (''  '' @ warning_sign @ '' Could not fetch live DOC page, using reference statistics'')]))
          (\<lambda>_.
           let data = push_statistics missouri_statistics data;
               data = set_section ''reentryStatistics'' missouri_reentryStatistics data;
               data = set_section ''resources'' missouri_resources data
           in
           bind_io (saveData rt ''missouri-doc.json'' (dataset_json data)) (\<lambda>_.
           return_io (Some data))))
       (\<lambda>error.
        bind_io (console_error
          [Str (''  '' @ ballot_x @ '' Error collecting Missouri data:''), Str (message error)]) (\<lambda>_.
        return_io None))))"

section \<open>Collector: Bureau of Justice Statistics\<close>

definition bjs_statistics :: "json list" where
  "bjs_statistics =
     [JObject
      [(''metric'', JString ''National Recidivism Rate (5 years)''),
       (''value'', JString ''44%''),
       (''description'', JString ''Percentage of released prisoners who return to prison within 5 years''),
       (''year'', JNumber 2021),
       (''source'', JString ''BJS Recidivism of Prisoners Released Study'')],
     JObject
      [(''metric'', JString ''Women's Recidivism Rate''),
       (''value'', JString ''~40%''),
       (''description'', JString ''Women have slightly lower recidivism rates than men''),
       (''comparison'', JString ''Men: ~46%''),
       (''source'', JString ''BJS'')],
     JObject
      [(''metric'', JString ''3-Year Rearrest Rate''),
       (''value'', JString ''68%''),
       (''description'', JString ''Percentage of released prisoners rearrested within 3 years''),
       (''source'', JString ''BJS'')],
     JObject
      [(''metric'', JString ''First Year Recidivism''),
       (''value'', JString ''29%''),
       (''description'', JString ''Nearly one-third return within the first year - the critical period''),
       (''source'', JString ''BJS'')]]"

definition bjs_africanAmericanWomenStatistics :: json where
  "bjs_africanAmericanWomenStatistics =
     JObject
    [(''description'', JString ''Statistics specific to African American women and incarceration''),
     (''statistics'', JArray
       [JObject
         [(''metric'', JString ''Incarceration Rate Disparity''),
          (''value'', JString ''2x''),
          (''description'', JString ''African American women are incarcerated at twice the rate of white women''),
          (''source'', JString ''The Sentencing Project'')],
        JObject
         [(''metric'', JString ''Lifetime Likelihood of Imprisonment''),
          (''value'', JString ''1 in 18''),
          (''description'', JString ''Lifetime likelihood of imprisonment for Black women (vs 1 in 111 for white women)''),
          (''source'', JString ''BJS'')],
        JObject
         [(''metric'', JString ''Percentage of Female Prison Population''),
          (''value'', JString ''~22%''),
          (''description'', JString ''African American women as percentage of total female prison population''),
          (''comparison'', JString ''~13% of US female population''),
          (''source'', JString ''BJS / Census'')]])]"

definition bjs_whatWorks :: json where
  "bjs_whatWorks =
     JObject
    [(''description'', JString ''Evidence-based practices that reduce recidivism''),
     (''interventions'', JArray
       [JObject
         [(''intervention'', JString ''Education Programs''),
          (''reduction'', JString ''43% lower recidivism'')],
        JObject
         [(''intervention'', JString ''Vocational Training''),
          (''reduction'', JString ''28% lower recidivism'')],
        JObject
         [(''intervention'', JString ''Cognitive Behavioral Therapy''),
          (''reduction'', JString ''25% lower recidivism'')],
        JObject
         [(''intervention'', JString ''Mentorship Programs''),
          (''reduction'', JString ''20-30% lower recidivism'')],
        JObject
         [(''intervention'', JString ''Transitional Housing''),
          (''reduction'', JString ''Significant reduction in first-year returns'')],
        JObject
         [(''intervention'', JString ''Employment Assistance''),
          (''reduction'', JString ''Critical for long-term success'')]]),
     (''source'', JString ''RAND Corporation / National Institute of Justice'')]"

definition bjs_resources :: json where
  "bjs_resources =
     JArray
    [JObject
      [(''name'', JString ''Bureau of Justice Statistics''),
       (''url'', JString ''https://bjs.ojp.gov/'')],
     JObject
      [(''name'', JString ''BJS Recidivism Studies''),
       (''url'', JString ''https://bjs.ojp.gov/topics/recidivism'')],
     JObject
      [(''name'', JString ''The Sentencing Project''),
       (''url'', JString ''https://www.sentencingproject.org/'')]]"

text \<open>This Collector sends no request: its body has no \<^verbatim>\<open>axios.get\<close>.\<close>

definition collectBJSData :: "runtime \<Rightarrow> dataset option io" where
  "collectBJSData rt =
     bind_io (console_log
       [Str (newline @ bar_chart @ '' Collecting Bureau of Justice Statistics Data...'')]) (\<lambda>_.
     bind_io (new_Date_toISOString rt) (\<lambda>now.
     let data = \<lparr>source = ''Bureau of Justice Statistics (BJS)'',
                 lastUpdated = now,
                 category = ''Recidivism and Reentry Statistics'',
                 statistics = [],
                 sections = []\<rparr>
     in
     try_catch
       (let data = push_statistics bjs_statistics data;
            data = set_section ''africanAmericanWomenStatistics'' bjs_africanAmericanWomenStatistics data;
            data = set_section ''whatWorks'' bjs_whatWorks data;
            data = set_section ''resources'' bjs_resources data
        in
        bind_io (saveData rt ''bjs-recidivism.json'' (dataset_json data)) (\<lambda>_.
        return_io (Some data)))
       (\<lambda>error.
        bind_io (console_error
          [Str (''  '' @ ballot_x @ '' Error collecting BJS data:''), Str (message error)]) (\<lambda>_.
        return_io None))))"

section \<open>Aggregator: \<^verbatim>\<open>createSummary\<close>\<close>

text \<open>The literal bound to \<^verbatim>\<open>summary\<close>; \<open>now\<close> is the clock reading of \<^verbatim>\<open>generatedAt\<close>.\<close>

definition summary :: "string \<Rightarrow> json" where
  "summary now =
     JObject
    [(''title'', JString ''Inn From the Storm - Impact Data Summary''),
     (''generatedAt'', JString now),
     (''purpose'', JString ''Data supporting the mission of helping formerly incarcerated African American women in Missouri''),
     (''keyStatistics'', JArray
       [JObject
         [(''label'', JString ''African American Women Incarceration Rate''),
          (''value'', JString ''2x higher than white women''),
          (''source'', JString ''The Sentencing Project'')],
        JObject
         [(''label'', JString ''Housing Instability After Release''),
          (''value'', JString ''60%+''),
          (''description'', JString ''Face housing instability within first year''),
          (''source'', JString ''Multiple studies'')],
        JObject
         [(''label'', JString ''HIV Rate in Incarcerated Women''),
          (''value'', JString ''5x higher than general population''),
          (''source'', JString ''CDC'')],
        JObject
         [(''label'', JString ''National Recidivism Rate''),
          (''value'', JString ''44%''),
          (''description'', JString ''Return to prison within 5 years''),
          (''source'', JString ''Bureau of Justice Statistics'')],
        JObject
         [(''label'', JString ''IFTS Success Rate''),
          (''value'', JString ''Only 2 lost to the system''),
          (''description'', JString ''Compared to 44% national recidivism rate''),
          (''source'', JString ''Inn From the Storm'')]]),
     (''impactAreas'', JObject
       [(''legal'', JObject
          [(''need'', JString ''Many returning women face ongoing legal challenges''),
           (''stats'', JArray
             [JString ''63% have pending legal issues at release'',
              JString ''Court navigation is a major barrier''])]),
        (''education'', JObject
          [(''need'', JString ''Education dramatically reduces recidivism''),
           (''stats'', JArray
             [JString ''43% reduction in recidivism with education programs'',
              JString ''GED completion opens employment doors''])]),
        (''health'', JObject
          [(''need'', JString ''HIV/AIDS and healthcare access''),
           (''stats'', JArray
             [JString ''Women in prison have 5x higher HIV rates'',
              JString ''70% report difficulty accessing healthcare post-release''])]),
        (''housing'', JObject
          [(''need'', JString ''Stable housing is foundational''),
           (''stats'', JArray
             [JString ''60%+ face housing instability in first year'',
              JString ''Housing is the #1 barrier to successful reentry''])]),
        (''employment'', JObject
          [(''need'', JString ''Employment prevents recidivism''),
           (''stats'', JArray
             [JString ''27% unemployment rate for formerly incarcerated'',
              JString ''Background check barriers affect 70%+''])]),
        (''mentorship'', JObject
          [(''need'', JString ''Peer support works''),
           (''stats'', JArray
             [JString ''20-30% reduction in recidivism with mentorship'',
              JString ''Hand in Hand model proves effective''])])]),
     (''missouriSpecific'', JObject
       [(''totalIncarcerated'', JString ''~23,000''),
        (''femalePopulation'', JString ''~2,300''),
        (''releasedAnnually'', JString ''~3,000 women''),
        (''primaryFacility'', JString ''Chillicothe Correctional Center''),
        (''racialDisparity'', JString ''5x higher incarceration rate for African Americans'')]),
     (''dataSources'', JArray
       [JString ''CDC - Centers for Disease Control and Prevention'',
        JString ''Missouri Department of Corrections'',
        JString ''Bureau of Justice Statistics'',
        JString ''The Sentencing Project'',
        JString ''Prison Policy Initiative'',
        JString ''RAND Corporation''])]"

text \<open>The literal bound to \<^verbatim>\<open>websiteStats\<close>.\<close>

definition websiteStats :: "string \<Rightarrow> json" where
  "websiteStats now =
     JObject
    [(''lastUpdated'', JString now),
     (''stats'', JArray
       [JObject
         [(''key'', JString ''incarceration_disparity''),
          (''value'', JString ''2x''),
          (''label'', JString ''African American women incarcerated at 2x the rate'')],
        JObject
         [(''key'', JString ''housing_instability''),
          (''value'', JString ''60%''),
          (''label'', JString ''Face housing instability in first year'')],
        JObject
         [(''key'', JString ''hiv_rate''),
          (''value'', JString ''5x''),
          (''label'', JString ''HIV rate compared to general population'')],
        JObject
         [(''key'', JString ''recidivism_national''),
          (''value'', JString ''44%''),
          (''label'', JString ''National 5-year recidivism rate'')],
        JObject
         [(''key'', JString ''education_impact''),
          (''value'', JString ''43%''),
          (''label'', JString ''Recidivism reduction with education'')],
        JObject
         [(''key'', JString ''trauma_history''),
          (''value'', JString ''86%''),
          (''label'', JString ''Incarcerated women with trauma history'')]])]"

text \<open>The three parameters are never read in the body.\<close>

definition createSummary ::
  "dataset option \<Rightarrow> dataset option \<Rightarrow> dataset option \<Rightarrow> runtime \<Rightarrow> json io" where
  "createSummary cdcData missouriData bjsData rt =
     bind_io (console_log [Str (newline @ bar_chart @ '' Creating Combined Summary...'')]) (\<lambda>_.
     bind_io (new_Date_toISOString rt) (\<lambda>generatedAt.
     bind_io (saveData rt ''summary.json'' (summary generatedAt)) (\<lambda>_.
     bind_io (new_Date_toISOString rt) (\<lambda>lastUpdated.
     bind_io (saveData rt ''website-stats.json'' (websiteStats lastUpdated)) (\<lambda>_.
     return_io (summary generatedAt))))))"

section \<open>Orchestrator: \<^verbatim>\<open>main\<close> and the script\<close>

text \<open>\<^verbatim>\<open>args.includes(x)\<close> on an array of strings.\<close>

definition array_includes :: "string list \<Rightarrow> string \<Rightarrow> bool" where
  "array_includes args x = (x \<in> set args)"

text \<open>\<open>args\<close> is \<^verbatim>\<open>process.argv.slice(2)\<close>: the command-line arguments after the script name.\<close>

definition main :: "string list \<Rightarrow> runtime \<Rightarrow> unit io" where
  "main args rt =
     bind_io (console_log [Str (box_down_right @ rule60 @ box_down_left)]) (\<lambda>_.
     bind_io (console_log
       [Str (box_vertical @ ''  Inn From the Storm - Data Collection Automation           '' @ box_vertical)]) (\<lambda>_.
     bind_io (console_log
       [Str (box_vertical @ ''  Collecting CDC, Missouri DOC, and BJS Statistics          '' @ box_vertical)]) (\<lambda>_.
     bind_io (console_log [Str (box_up_right @ rule60 @ box_up_left)]) (\<lambda>_.
     let collectAll = (length args = 0 \<or> array_includes args ''--all'') in
     bind_io (ensureOutputDir rt) (\<lambda>_.
     bind_io (if collectAll \<or> array_includes args ''--cdc''
              then collectCDCData rt else return_io None) (\<lambda>cdcData.
     bind_io (if collectAll \<or> array_includes args ''--missouri''
              then collectMissouriData rt else return_io None) (\<lambda>missouriData.
     bind_io (if collectAll \<or> array_includes args ''--bjs''
              then collectBJSData rt else return_io None) (\<lambda>bjsData.
     bind_io (if collectAll
              then bind_io (createSummary cdcData missouriData bjsData rt) (\<lambda>_. return_io ())
              else return_io ()) (\<lambda>_.
     bind_io (console_log [Str (newline @ rule60)]) (\<lambda>_.
     bind_io (console_log [Str (check_mark @ '' Data collection complete!'')]) (\<lambda>_.
     bind_io (console_log [Str (''  Output directory: '' @ OUTPUT_DIR rt)]) (\<lambda>_.
     console_log [Str (rule60 @ newline)]))))))))))))"

text \<open>
  The last line of the script, \<^verbatim>\<open>main().catch(console.error)\<close>: a rejection of
  \<^verbatim>\<open>main\<close> is handed to \<^verbatim>\<open>console.error\<close>, and the promise of the whole
  expression is the one returned by \<^verbatim>\<open>catch\<close>.
\<close>

definition script :: "string list \<Rightarrow> runtime \<Rightarrow> unit io" where
  "script args rt = try_catch (main args rt) (\<lambda>err. console_error [Err err])"

text \<open>
  The script never calls \<^verbatim>\<open>process.exit\<close> and never assigns \<^verbatim>\<open>process.exitCode\<close>.
  Node then ends the process with status 1 when the top-level promise is rejected and
  nothing handles it, and with status 0 once the pending work is done otherwise.
\<close>

definition exit_status :: "js_error + unit \<Rightarrow> nat" where
  "exit_status settled = (case settled of Inl unhandled \<Rightarrow> 1 | Inr _ \<Rightarrow> 0)"

definition node_collect_data :: "string list \<Rightarrow> runtime \<Rightarrow> world \<Rightarrow> nat \<times> world" where
  "node_collect_data args rt w = (case script args rt w of (settled, w') \<Rightarrow> (exit_status settled, w'))"

section \<open>Notions used to state the properties\<close>

text \<open>
  The inner \<^verbatim>\<open>try\<close> of \<^verbatim>\<open>collectCDCData\<close> runs to its end exactly when the request is
  answered, the page loads and the text of its body can be read; the one of
  \<^verbatim>\<open>collectMissouriData\<close> when the request is answered and the page loads.
\<close>

definition cdc_page_loaded :: "runtime \<Rightarrow> bool" where
  "cdc_page_loaded rt =
     (case net_response rt \<lparr>url = cdcUrl, headers = user_agent, timeout = 15000\<rparr> of
        Inl e \<Rightarrow> False
      | Inr response \<Rightarrow>
          (case html_load rt response of
             Some e \<Rightarrow> False
           | None \<Rightarrow>
               (case select_text rt (Cheerio response) ''body'' of
                  Inl e \<Rightarrow> False
                | Inr t \<Rightarrow> True)))"

definition doc_page_loaded :: "runtime \<Rightarrow> bool" where
  "doc_page_loaded rt =
     (case net_response rt \<lparr>url = docUrl, headers = user_agent, timeout = 15000\<rparr> of
        Inl e \<Rightarrow> False
      | Inr response \<Rightarrow> (case html_load rt response of Some e \<Rightarrow> False | None \<Rightarrow> True))"

text \<open>What a Collector returned, with the timestamp blanked.\<close>

definition blank_lastUpdated :: "dataset \<Rightarrow> dataset" where
  "blank_lastUpdated d = d\<lparr>lastUpdated := []\<rparr>"

definition up_to_lastUpdated :: "js_error + dataset option \<Rightarrow> js_error + dataset option" where
  "up_to_lastUpdated r = map_sum id (map_option blank_lastUpdated) r"

text \<open>A Dataset with the entry of the live CDC page put in front of its statistics.\<close>

definition with_live_statistic :: "dataset \<Rightarrow> dataset" where
  "with_live_statistic d = d\<lparr>statistics := cdc_live_statistic # statistics d\<rparr>"

text \<open>A property that is present and is a string with at least one character.\<close>

definition nonempty_string :: "json option \<Rightarrow> bool" where
  "nonempty_string v = (case v of Some (JString s) \<Rightarrow> s \<noteq> [] | _ \<Rightarrow> False)"

text \<open>
  A StatEntry of a Dataset is well formed when it has a non-empty \<^verbatim>\<open>metric\<close>, a non-empty
  \<^verbatim>\<open>value\<close> and a source: its own, or else the one of the Dataset.
\<close>

definition well_formed_entry :: "dataset \<Rightarrow> json \<Rightarrow> bool" where
  "well_formed_entry d e =
     (nonempty_string (property ''metric'' e) \<and>
      nonempty_string (property ''value'' e) \<and>
      (nonempty_string (property ''source'' e) \<or> source d \<noteq> []))"

text \<open>The lines printed between a world and a later one.\<close>

definition printed :: "world \<Rightarrow> world \<Rightarrow> console_line list" where
  "printed w w' = drop (length (console w)) (console w')"

text \<open>A JSON object without one of its properties.\<close>

fun remove_property :: "string \<Rightarrow> json \<Rightarrow> json" where
  "remove_property k (JObject kvs) = JObject (filter (\<lambda>kv. fst kv \<noteq> k) kvs)"
| "remove_property k v = v"

text \<open>The four flags that \<^verbatim>\<open>main\<close> looks for.\<close>

definition recognized_flag :: "string \<Rightarrow> bool" where
  "recognized_flag a = (a = ''--all'' \<or> a = ''--cdc'' \<or> a = ''--missouri'' \<or> a = ''--bjs'')"

section \<open>Concrete runtimes and a fresh world\<close>

text \<open>A machine without network: every request is rejected; the disk is writable.\<close>

definition rt_offline :: runtime where
  "rt_offline =
     \<lparr>dirname = ''/srv/automation'',
      clock = (\<lambda>n. ''2025-01-01T00:00:00.000Z''),
      net_response = (\<lambda>req. Inl (JsError (Some ''ENOTFOUND'') ''getaddrinfo ENOTFOUND'')),
      html_load = (\<lambda>markup. None),
      select_text = (\<lambda>doc selector. Inr ''''),
      mkdir_error = (\<lambda>dir. None),
      writeFile_error = (\<lambda>filepath. None),
      writeFile_partial = (\<lambda>filepath. None)\<rparr>"

text \<open>The same machine with a network that answers every request with a page.\<close>

definition rt_online :: runtime where
  "rt_online = rt_offline\<lparr>net_response := (\<lambda>req. Inr ''<html><body>ok</body></html>'')\<rparr>"

text \<open>A disk on which no file can be opened for writing.\<close>

definition EACCES :: js_error where
  "EACCES = JsError (Some ''EACCES'') ''EACCES: permission denied''"

definition rt_readonly :: runtime where
  "rt_readonly = rt_offline\<lparr>writeFile_error := (\<lambda>filepath. Some EACCES)\<rparr>"

text \<open>A disk on which only \<^verbatim>\<open>summary.json\<close> cannot be written.\<close>

definition rt_summary_denied :: runtime where
  "rt_summary_denied =
     rt_online\<lparr>writeFile_error :=
       (\<lambda>filepath. if filepath = ''/srv/automation/data/summary.json'' then Some EACCES else None)\<rparr>"

text \<open>An output directory that cannot be created.\<close>

definition rt_mkdir_denied :: runtime where
  "rt_mkdir_denied = rt_online\<lparr>mkdir_error := (\<lambda>dir. Some EACCES)\<rparr>"

definition fresh :: world where
  "fresh = \<lparr>files = Map.empty, dirs = {}, console = [], requests = [], ticks = 0\<rparr>"

section \<open>Running the operations\<close>

lemmas io_defs = return_io_def throw_io_def bind_io_def try_catch_def console_log_def
  console_error_def new_Date_toISOString_def axios_get_def cheerio_load_def cheerio_text_def
  fs_mkdir_def fs_writeFile_def Let_def

lemma bind_io_apply:
  "bind_io m f w =
     (case fst (m w) of Inl e \<Rightarrow> (Inl e, snd (m w)) | Inr x \<Rightarrow> f x (snd (m w)))"
  by (simp add: bind_io_def split: prod.splits sum.splits)

lemma try_catch_apply:
  "try_catch m h w =
     (case fst (m w) of Inl e \<Rightarrow> h e (snd (m w)) | Inr x \<Rightarrow> (Inr x, snd (m w)))"
  by (simp add: try_catch_def split: prod.splits sum.splits)

lemma console_log_apply:
  "console_log args w = (Inr (), w\<lparr>console := console w @ [Log args]\<rparr>)"
  by (simp add: console_log_def)

lemma return_io_apply: "return_io x w = (Inr x, w)"
  by (simp add: return_io_def)

lemma ensureOutputDir_apply:
  "ensureOutputDir rt w =
     (case mkdir_error rt (OUTPUT_DIR rt) of
        None \<Rightarrow> (Inr (), w\<lparr>dirs := insert (OUTPUT_DIR rt) (dirs w)\<rparr>)
      | Some e \<Rightarrow> (if code e \<noteq> Some ''EEXIST'' then (Inl e, w) else (Inr (), w)))"
  by (cases "mkdir_error rt (OUTPUT_DIR rt)") (simp_all add: ensureOutputDir_def io_defs)

lemma failed_write_other [simp]:
  "p \<noteq> filepath \<Longrightarrow> failed_write rt filepath txt disk p = disk p"
  by (cases "writeFile_partial rt filepath") (simp_all add: failed_write_def)

lemma saveData_apply:
  "saveData rt filename v w =
     (case writeFile_error rt (path_join (OUTPUT_DIR rt) filename) of
        Some e \<Rightarrow>
          (Inl e,
           w\<lparr>files := failed_write rt (path_join (OUTPUT_DIR rt) filename)
                       (JSON_stringify v 2) (files w)\<rparr>)
      | None \<Rightarrow>
          (Inr (),
           w\<lparr>files := (files w)(path_join (OUTPUT_DIR rt) filename \<mapsto> JSON_stringify v 2),
             console := console w @
               [Log [Str (check_mark @ '' Saved: '' @ path_join (OUTPUT_DIR rt) filename)]]\<rparr>))"
  by (cases "writeFile_error rt (path_join (OUTPUT_DIR rt) filename)")
     (simp_all add: saveData_def io_defs)

subsection \<open>What each Collector returns and leaves behind\<close>

lemma collectCDCData_apply:
  "collectCDCData rt w =
     (let filepath = path_join (OUTPUT_DIR rt) ''cdc-hiv-aids.json'';
          data = \<lparr>source = ''CDC - Centers for Disease Control and Prevention'',
                  lastUpdated = clock rt (ticks w),
                  category = ''HIV/AIDS in Correctional Settings'',
                  statistics = (if cdc_page_loaded rt then [cdc_live_statistic] else [])
                                 @ cdc_established_statistics,
                  sections = [(''keyFindings'', cdc_keyFindings), (''resources'', cdc_resources)]\<rparr>
      in (Inr (case writeFile_error rt filepath of Some e \<Rightarrow> None | None \<Rightarrow> Some data),
          w\<lparr>console := console w
                 @ [Log [Str (newline @ bar_chart @ '' Collecting CDC HIV/AIDS Data...'')]]
                 @ (if cdc_page_loaded rt then []
                    else [Log [Str (''  '' @ warning_sign
                                    @ '' Could not fetch live CDC page, using cached statistics'')]])
                 @ [case writeFile_error rt filepath of
                      Some e \<Rightarrow> Error [Str (''  '' @ ballot_x @ '' Error collecting CDC data:''),
                                        Str (message e)]
                    | None \<Rightarrow> Log [Str (check_mark @ '' Saved: '' @ filepath)]],
            ticks := Suc (ticks w),
            requests := requests w @ [\<lparr>url = cdcUrl, headers = user_agent, timeout = 15000\<rparr>],
            files := (case writeFile_error rt filepath of
                        Some e \<Rightarrow>
                          failed_write rt filepath (JSON_stringify (dataset_json data) 2) (files w)
                      | None \<Rightarrow> (files w)(filepath \<mapsto> JSON_stringify (dataset_json data) 2))\<rparr>))"
proof -
  note defs = collectCDCData_def cdc_page_loaded_def saveData_apply io_defs
    push_statistics_def set_section_def
  let ?req = "\<lparr>url = cdcUrl, headers = user_agent, timeout = 15000\<rparr>"
  let ?file = "path_join (OUTPUT_DIR rt) ''cdc-hiv-aids.json''"
  show ?thesis
  proof (cases "net_response rt ?req")
    case (Inl e)
    then show ?thesis
      by (cases "writeFile_error rt ?file") (simp_all add: defs)
  next
    case answered: (Inr response)
    show ?thesis
    proof (cases "html_load rt response")
      case (Some e)
      with answered show ?thesis
        by (cases "writeFile_error rt ?file") (simp_all add: defs)
    next
      case loaded: None
      show ?thesis
      proof (cases "select_text rt (Cheerio response) ''body''")
        case (Inl e)
        with answered loaded show ?thesis
          by (cases "writeFile_error rt ?file") (simp_all add: defs)
      next
        case (Inr t)
        with answered loaded show ?thesis
          by (cases "writeFile_error rt ?file") (simp_all add: defs)
      qed
    qed
  qed
qed

lemma collectMissouriData_apply:
  "collectMissouriData rt w =
     (let filepath = path_join (OUTPUT_DIR rt) ''missouri-doc.json'';
          data = \<lparr>source = ''Missouri Department of Corrections'',
                  lastUpdated = clock rt (ticks w),
                  category = ''Missouri Incarceration Statistics'',
                  statistics = missouri_statistics,
                  sections = [(''reentryStatistics'', missouri_reentryStatistics),
                              (''resources'', missouri_resources)]\<rparr>
      in (Inr (case writeFile_error rt filepath of Some e \<Rightarrow> None | None \<Rightarrow> Some data),
          w\<lparr>console := console w
                 @ [Log [Str (newline @ bar_chart
                              @ '' Collecting Missouri Department of Corrections Data...'')],
                    Log [Str (if doc_page_loaded rt
                              then ''  '' @ check_mark @ '' Fetched Missouri DOC page''
                              else ''  '' @ warning_sign
                                   @ '' Could not fetch live DOC page, using reference statistics'')],
                    case writeFile_error rt filepath of
                      Some e \<Rightarrow> Error [Str (''  '' @ ballot_x @ '' Error collecting Missouri data:''),
                                        Str (message e)]
                    | None \<Rightarrow> Log [Str (check_mark @ '' Saved: '' @ filepath)]],
            ticks := Suc (ticks w),
            requests := requests w @ [\<lparr>url = docUrl, headers = user_agent, timeout = 15000\<rparr>],
            files := (case writeFile_error rt filepath of
                        Some e \<Rightarrow>
                          failed_write rt filepath (JSON_stringify (dataset_json data) 2) (files w)
                      | None \<Rightarrow> (files w)(filepath \<mapsto> JSON_stringify (dataset_json data) 2))\<rparr>))"
proof -
  note defs = collectMissouriData_def doc_page_loaded_def saveData_apply io_defs
    push_statistics_def set_section_def
  let ?req = "\<lparr>url = docUrl, headers = user_agent, timeout = 15000\<rparr>"
  let ?file = "path_join (OUTPUT_DIR rt) ''missouri-doc.json''"
  show ?thesis
  proof (cases "net_response rt ?req")
    case (Inl e)
    then show ?thesis
      by (cases "writeFile_error rt ?file") (simp_all add: defs)
  next
    case answered: (Inr response)
    show ?thesis
    proof (cases "html_load rt response")
      case (Some e)
      with answered show ?thesis
        by (cases "writeFile_error rt ?file") (simp_all add: defs)
    next
      case None
      with answered show ?thesis
        by (cases "writeFile_error rt ?file") (simp_all add: defs)
    qed
  qed
qed

lemma collectBJSData_apply:
  "collectBJSData rt w =
     (let filepath = path_join (OUTPUT_DIR rt) ''bjs-recidivism.json'';
          data = \<lparr>source = ''Bureau of Justice Statistics (BJS)'',
                  lastUpdated = clock rt (ticks w),
                  category = ''Recidivism and Reentry Statistics'',
                  statistics = bjs_statistics,
                  sections = [(''africanAmericanWomenStatistics'', bjs_africanAmericanWomenStatistics),
                              (''whatWorks'', bjs_whatWorks),
                              (''resources'', bjs_resources)]\<rparr>
      in (Inr (case writeFile_error rt filepath of Some e \<Rightarrow> None | None \<Rightarrow> Some data),
          w\<lparr>console := console w
                 @ [Log [Str (newline @ bar_chart
                              @ '' Collecting Bureau of Justice Statistics Data...'')],
                    case writeFile_error rt filepath of
                      Some e \<Rightarrow> Error [Str (''  '' @ ballot_x @ '' Error collecting BJS data:''),
                                        Str (message e)]
                    | None \<Rightarrow> Log [Str (check_mark @ '' Saved: '' @ filepath)]],
            ticks := Suc (ticks w),
            files := (case writeFile_error rt filepath of
                        Some e \<Rightarrow>
                          failed_write rt filepath (JSON_stringify (dataset_json data) 2) (files w)
                      | None \<Rightarrow> (files w)(filepath \<mapsto> JSON_stringify (dataset_json data) 2))\<rparr>))"
  by (cases "writeFile_error rt (path_join (OUTPUT_DIR rt) ''bjs-recidivism.json'')")
     (simp_all add: collectBJSData_def saveData_apply io_defs push_statistics_def set_section_def)

lemma createSummary_apply:
  "createSummary cdcData missouriData bjsData rt w =
     (let summary_file = path_join (OUTPUT_DIR rt) ''summary.json'';
          stats_file = path_join (OUTPUT_DIR rt) ''website-stats.json'';
          generatedAt = clock rt (ticks w);
          lastUpdated = clock rt (Suc (ticks w));
          started = Log [Str (newline @ bar_chart @ '' Creating Combined Summary...'')]
      in case writeFile_error rt summary_file of
           Some e \<Rightarrow>
             (Inl e,
              w\<lparr>console := console w @ [started], ticks := Suc (ticks w),
                files := failed_write rt summary_file (JSON_stringify (summary generatedAt) 2)
                           (files w)\<rparr>)
         | None \<Rightarrow>
             (case writeFile_error rt stats_file of
                Some e \<Rightarrow>
                  (Inl e,
                   w\<lparr>console := console w
                        @ [started, Log [Str (check_mark @ '' Saved: '' @ summary_file)]],
                     ticks := Suc (Suc (ticks w)),
                     files := failed_write rt stats_file (JSON_stringify (websiteStats lastUpdated) 2)
                        ((files w)(summary_file \<mapsto> JSON_stringify (summary generatedAt) 2))\<rparr>)
              | None \<Rightarrow>
                  (Inr (summary generatedAt),
                   w\<lparr>console := console w
                        @ [started, Log [Str (check_mark @ '' Saved: '' @ summary_file)],
                           Log [Str (check_mark @ '' Saved: '' @ stats_file)]],
                     ticks := Suc (Suc (ticks w)),
                     files := (files w)
                        (summary_file \<mapsto> JSON_stringify (summary generatedAt) 2,
                         stats_file \<mapsto> JSON_stringify (websiteStats lastUpdated) 2)\<rparr>)))"
proof (cases "writeFile_error rt (path_join (OUTPUT_DIR rt) ''summary.json'')")
  case (Some e)
  then show ?thesis
    by (simp add: createSummary_def saveData_apply io_defs)
next
  case None
  then show ?thesis
    by (cases "writeFile_error rt (path_join (OUTPUT_DIR rt) ''website-stats.json'')")
       (simp_all add: createSummary_def saveData_apply io_defs)
qed

lemma collectCDCData_fst:
  "fst (collectCDCData rt w) =
     Inr (case writeFile_error rt (path_join (OUTPUT_DIR rt) ''cdc-hiv-aids.json'') of
            Some e \<Rightarrow> None
          | None \<Rightarrow>
              Some \<lparr>source = ''CDC - Centers for Disease Control and Prevention'',
                    lastUpdated = clock rt (ticks w),
                    category = ''HIV/AIDS in Correctional Settings'',
                    statistics = (if cdc_page_loaded rt then [cdc_live_statistic] else [])
                                   @ cdc_established_statistics,
                    sections = [(''keyFindings'', cdc_keyFindings), (''resources'', cdc_resources)]\<rparr>)"
  by (simp add: collectCDCData_apply Let_def)

lemma collectMissouriData_fst:
  "fst (collectMissouriData rt w) =
     Inr (case writeFile_error rt (path_join (OUTPUT_DIR rt) ''missouri-doc.json'') of
            Some e \<Rightarrow> None
          | None \<Rightarrow>
              Some \<lparr>source = ''Missouri Department of Corrections'',
                    lastUpdated = clock rt (ticks w),
                    category = ''Missouri Incarceration Statistics'',
                    statistics = missouri_statistics,
                    sections = [(''reentryStatistics'', missouri_reentryStatistics),
                                (''resources'', missouri_resources)]\<rparr>)"
  by (simp add: collectMissouriData_apply Let_def)

lemma collectBJSData_fst:
  "fst (collectBJSData rt w) =
     Inr (case writeFile_error rt (path_join (OUTPUT_DIR rt) ''bjs-recidivism.json'') of
            Some e \<Rightarrow> None
          | None \<Rightarrow>
              Some \<lparr>source = ''Bureau of Justice Statistics (BJS)'',
                    lastUpdated = clock rt (ticks w),
                    category = ''Recidivism and Reentry Statistics'',
                    statistics = bjs_statistics,
                    sections = [(''africanAmericanWomenStatistics'', bjs_africanAmericanWomenStatistics),
                                (''whatWorks'', bjs_whatWorks),
                                (''resources'', bjs_resources)]\<rparr>)"
  by (simp add: collectBJSData_apply Let_def)

lemma collectCDCData_console:
  "console (snd (collectCDCData rt w)) =
     console w
     @ [Log [Str (newline @ bar_chart @ '' Collecting CDC HIV/AIDS Data...'')]]
     @ (if cdc_page_loaded rt then []
        else [Log [Str (''  '' @ warning_sign
                        @ '' Could not fetch live CDC page, using cached statistics'')]])
     @ [case writeFile_error rt (path_join (OUTPUT_DIR rt) ''cdc-hiv-aids.json'') of
          Some e \<Rightarrow> Error [Str (''  '' @ ballot_x @ '' Error collecting CDC data:''), Str (message e)]
        | None \<Rightarrow> Log [Str (check_mark @ '' Saved: ''
                            @ path_join (OUTPUT_DIR rt) ''cdc-hiv-aids.json'')]]"
  by (simp add: collectCDCData_apply Let_def)

lemma collectMissouriData_console:
  "console (snd (collectMissouriData rt w)) =
     console w
     @ [Log [Str (newline @ bar_chart @ '' Collecting Missouri Department of Corrections Data...'')],
        Log [Str (if doc_page_loaded rt
                  then ''  '' @ check_mark @ '' Fetched Missouri DOC page''
                  else ''  '' @ warning_sign
                       @ '' Could not fetch live DOC page, using reference statistics'')],
        case writeFile_error rt (path_join (OUTPUT_DIR rt) ''missouri-doc.json'') of
          Some e \<Rightarrow> Error [Str (''  '' @ ballot_x @ '' Error collecting Missouri data:''),
                            Str (message e)]
        | None \<Rightarrow> Log [Str (check_mark @ '' Saved: ''
                            @ path_join (OUTPUT_DIR rt) ''missouri-doc.json'')]]"
  by (simp add: collectMissouriData_apply Let_def)

lemma collectBJSData_console:
  "console (snd (collectBJSData rt w)) =
     console w
     @ [Log [Str (newline @ bar_chart @ '' Collecting Bureau of Justice Statistics Data...'')],
        case writeFile_error rt (path_join (OUTPUT_DIR rt) ''bjs-recidivism.json'') of
          Some e \<Rightarrow> Error [Str (''  '' @ ballot_x @ '' Error collecting BJS data:''), Str (message e)]
        | None \<Rightarrow> Log [Str (check_mark @ '' Saved: ''
                            @ path_join (OUTPUT_DIR rt) ''bjs-recidivism.json'')]]"
  by (simp add: collectBJSData_apply Let_def)

subsection \<open>Frames: what an operation leaves untouched\<close>

lemma ensureOutputDir_frame:
  "files (snd (ensureOutputDir rt w)) = files w"
  "console (snd (ensureOutputDir rt w)) = console w"
  "requests (snd (ensureOutputDir rt w)) = requests w"
  "ticks (snd (ensureOutputDir rt w)) = ticks w"
  by (cases "mkdir_error rt (OUTPUT_DIR rt)"; simp add: ensureOutputDir_apply)+

lemma ensureOutputDir_fst:
  "fst (ensureOutputDir rt w) = fst (ensureOutputDir rt w')"
  by (cases "mkdir_error rt (OUTPUT_DIR rt)"; simp add: ensureOutputDir_apply)

lemma createSummary_fst:
  "fst (createSummary cdcData missouriData bjsData rt w) =
     (case writeFile_error rt (path_join (OUTPUT_DIR rt) ''summary.json'') of
        Some e \<Rightarrow> Inl e
      | None \<Rightarrow>
          (case writeFile_error rt (path_join (OUTPUT_DIR rt) ''website-stats.json'') of
             Some e \<Rightarrow> Inl e
           | None \<Rightarrow> Inr (summary (clock rt (ticks w)))))"
  by (cases "writeFile_error rt (path_join (OUTPUT_DIR rt) ''summary.json'')";
      cases "writeFile_error rt (path_join (OUTPUT_DIR rt) ''website-stats.json'')";
      simp add: createSummary_apply Let_def)

lemma collectors_return:
  "\<exists>r. \<forall>w. fst (collectCDCData rt w) = Inr (r w)"
  "\<exists>r. \<forall>w. fst (collectMissouriData rt w) = Inr (r w)"
  "\<exists>r. \<forall>w. fst (collectBJSData rt w) = Inr (r w)"
proof -
  show "\<exists>r. \<forall>w. fst (collectCDCData rt w) = Inr (r w)"
    by (rule exI [of _ "\<lambda>w. projr (fst (collectCDCData rt w))"])
       (simp add: collectCDCData_fst)
  show "\<exists>r. \<forall>w. fst (collectMissouriData rt w) = Inr (r w)"
    by (rule exI [of _ "\<lambda>w. projr (fst (collectMissouriData rt w))"])
       (simp add: collectMissouriData_fst)
  show "\<exists>r. \<forall>w. fst (collectBJSData rt w) = Inr (r w)"
    by (rule exI [of _ "\<lambda>w. projr (fst (collectBJSData rt w))"])
       (simp add: collectBJSData_fst)
qed

lemma collectors_requests:
  "requests (snd (collectCDCData rt w)) =
     requests w @ [\<lparr>url = cdcUrl, headers = user_agent, timeout = 15000\<rparr>]"
  "requests (snd (collectMissouriData rt w)) =
     requests w @ [\<lparr>url = docUrl, headers = user_agent, timeout = 15000\<rparr>]"
  "requests (snd (collectBJSData rt w)) = requests w"
  by (simp_all add: collectCDCData_apply collectMissouriData_apply collectBJSData_apply Let_def)

lemma createSummary_requests:
  "requests (snd (createSummary cdcData missouriData bjsData rt w)) = requests w"
  by (cases "writeFile_error rt (path_join (OUTPUT_DIR rt) ''summary.json'')";
      cases "writeFile_error rt (path_join (OUTPUT_DIR rt) ''website-stats.json'')";
      simp add: createSummary_apply Let_def)

lemma collectors_ticks:
  "ticks (snd (collectCDCData rt w)) = Suc (ticks w)"
  "ticks (snd (collectMissouriData rt w)) = Suc (ticks w)"
  "ticks (snd (collectBJSData rt w)) = Suc (ticks w)"
  by (simp_all add: collectCDCData_apply collectMissouriData_apply collectBJSData_apply Let_def)

lemma path_join_eq [simp]: "path_join dir a = path_join dir b \<longleftrightarrow> a = b"
  by (simp add: path_join_def)

lemma collectors_files_frame:
  "p \<noteq> path_join (OUTPUT_DIR rt) ''cdc-hiv-aids.json'' \<Longrightarrow>
     files (snd (collectCDCData rt w)) p = files w p"
  "p \<noteq> path_join (OUTPUT_DIR rt) ''missouri-doc.json'' \<Longrightarrow>
     files (snd (collectMissouriData rt w)) p = files w p"
  "p \<noteq> path_join (OUTPUT_DIR rt) ''bjs-recidivism.json'' \<Longrightarrow>
     files (snd (collectBJSData rt w)) p = files w p"
    apply (cases "writeFile_error rt (path_join (OUTPUT_DIR rt) ''cdc-hiv-aids.json'')";
           simp add: collectCDCData_apply Let_def)
   apply (cases "writeFile_error rt (path_join (OUTPUT_DIR rt) ''missouri-doc.json'')";
          simp add: collectMissouriData_apply Let_def)
  apply (cases "writeFile_error rt (path_join (OUTPUT_DIR rt) ''bjs-recidivism.json'')";
         simp add: collectBJSData_apply Let_def)
  done

lemma collectors_files_written:
  "writeFile_error rt (path_join (OUTPUT_DIR rt) ''cdc-hiv-aids.json'') = None \<Longrightarrow>
     \<exists>d. fst (collectCDCData rt w) = Inr (Some d)
          \<and> files (snd (collectCDCData rt w)) (path_join (OUTPUT_DIR rt) ''cdc-hiv-aids.json'')
            = Some (JSON_stringify (dataset_json d) 2)
          \<and> source d = ''CDC - Centers for Disease Control and Prevention''"
  "writeFile_error rt (path_join (OUTPUT_DIR rt) ''missouri-doc.json'') = None \<Longrightarrow>
     \<exists>d. fst (collectMissouriData rt w) = Inr (Some d)
          \<and> files (snd (collectMissouriData rt w)) (path_join (OUTPUT_DIR rt) ''missouri-doc.json'')
            = Some (JSON_stringify (dataset_json d) 2)
          \<and> source d = ''Missouri Department of Corrections''"
  "writeFile_error rt (path_join (OUTPUT_DIR rt) ''bjs-recidivism.json'') = None \<Longrightarrow>
     \<exists>d. fst (collectBJSData rt w) = Inr (Some d)
          \<and> files (snd (collectBJSData rt w)) (path_join (OUTPUT_DIR rt) ''bjs-recidivism.json'')
            = Some (JSON_stringify (dataset_json d) 2)
          \<and> source d = ''Bureau of Justice Statistics (BJS)''"
    apply (simp add: collectCDCData_apply Let_def)
   apply (simp add: collectMissouriData_apply Let_def)
  apply (simp add: collectBJSData_apply Let_def)
  done

lemma collectors_write:
  "writeFile_error rt (path_join (OUTPUT_DIR rt) ''cdc-hiv-aids.json'') = None \<Longrightarrow>
     \<exists>d. \<forall>w. files (snd (collectCDCData rt w)) (path_join (OUTPUT_DIR rt) ''cdc-hiv-aids.json'')
                 = Some (JSON_stringify (dataset_json (d w)) 2)
               \<and> source (d w) = ''CDC - Centers for Disease Control and Prevention''"
  "writeFile_error rt (path_join (OUTPUT_DIR rt) ''missouri-doc.json'') = None \<Longrightarrow>
     \<exists>d. \<forall>w. files (snd (collectMissouriData rt w)) (path_join (OUTPUT_DIR rt) ''missouri-doc.json'')
                 = Some (JSON_stringify (dataset_json (d w)) 2)
               \<and> source (d w) = ''Missouri Department of Corrections''"
  "writeFile_error rt (path_join (OUTPUT_DIR rt) ''bjs-recidivism.json'') = None \<Longrightarrow>
     \<exists>d. \<forall>w. files (snd (collectBJSData rt w)) (path_join (OUTPUT_DIR rt) ''bjs-recidivism.json'')
                 = Some (JSON_stringify (dataset_json (d w)) 2)
               \<and> source (d w) = ''Bureau of Justice Statistics (BJS)''"
  using collectors_files_written [of rt] by metis+

lemma createSummary_files_frame:
  "p \<noteq> path_join (OUTPUT_DIR rt) ''summary.json'' \<Longrightarrow>
   p \<noteq> path_join (OUTPUT_DIR rt) ''website-stats.json'' \<Longrightarrow>
     files (snd (createSummary cdcData missouriData bjsData rt w)) p = files w p"
  by (cases "writeFile_error rt (path_join (OUTPUT_DIR rt) ''summary.json'')";
      cases "writeFile_error rt (path_join (OUTPUT_DIR rt) ''website-stats.json'')";
      simp add: createSummary_apply Let_def)

lemma createSummary_ticks_files:
  "writeFile_error rt (path_join (OUTPUT_DIR rt) ''summary.json'') = None \<Longrightarrow>
     files (snd (createSummary cdcData missouriData bjsData rt w)) (path_join (OUTPUT_DIR rt) ''summary.json'')
       = Some (JSON_stringify (summary (clock rt (ticks w))) 2)"
  by (cases "writeFile_error rt (path_join (OUTPUT_DIR rt) ''website-stats.json'')";
      simp add: createSummary_apply Let_def)

subsection \<open>Console lines\<close>

lemmas glyph_defs = newline_def bar_chart_def check_mark_def warning_sign_def ballot_x_def

lemma rule60_starts: "\<exists>rest. rule60 = CHR 0xE2 # rest"
  by (simp add: rule60_def box_horizontal_def eval_nat_numeral)

lemma collectors_lines:
  "\<exists>ls. (\<forall>w. console (snd (collectCDCData rt w)) = console w @ ls)
      \<and> Log [Str (newline @ bar_chart @ '' Collecting CDC HIV/AIDS Data...'')] \<in> set ls
      \<and> Log [Str (newline @ bar_chart @ '' Creating Combined Summary...'')] \<notin> set ls"
  "\<exists>ls. (\<forall>w. console (snd (collectMissouriData rt w)) = console w @ ls)
      \<and> Log [Str (newline @ bar_chart @ '' Collecting Missouri Department of Corrections Data...'')]
          \<in> set ls
      \<and> Log [Str (newline @ bar_chart @ '' Creating Combined Summary...'')] \<notin> set ls"
  "\<exists>ls. (\<forall>w. console (snd (collectBJSData rt w)) = console w @ ls)
      \<and> Log [Str (newline @ bar_chart @ '' Collecting Bureau of Justice Statistics Data...'')]
          \<in> set ls
      \<and> Log [Str (newline @ bar_chart @ '' Creating Combined Summary...'')] \<notin> set ls"
proof -
  show "\<exists>ls. (\<forall>w. console (snd (collectCDCData rt w)) = console w @ ls)
      \<and> Log [Str (newline @ bar_chart @ '' Collecting CDC HIV/AIDS Data...'')] \<in> set ls
      \<and> Log [Str (newline @ bar_chart @ '' Creating Combined Summary...'')] \<notin> set ls"
    by (rule exI [of _ "drop (length (console w0)) (console (snd (collectCDCData rt w0)))" for w0])
       (simp add: collectCDCData_console glyph_defs split: option.splits)
  show "\<exists>ls. (\<forall>w. console (snd (collectMissouriData rt w)) = console w @ ls)
      \<and> Log [Str (newline @ bar_chart @ '' Collecting Missouri Department of Corrections Data...'')]
          \<in> set ls
      \<and> Log [Str (newline @ bar_chart @ '' Creating Combined Summary...'')] \<notin> set ls"
    by (rule exI [of _ "drop (length (console w0)) (console (snd (collectMissouriData rt w0)))" for w0])
       (simp add: collectMissouriData_console glyph_defs split: option.splits)
  show "\<exists>ls. (\<forall>w. console (snd (collectBJSData rt w)) = console w @ ls)
      \<and> Log [Str (newline @ bar_chart @ '' Collecting Bureau of Justice Statistics Data...'')]
          \<in> set ls
      \<and> Log [Str (newline @ bar_chart @ '' Creating Combined Summary...'')] \<notin> set ls"
    by (rule exI [of _ "drop (length (console w0)) (console (snd (collectBJSData rt w0)))" for w0])
       (simp add: collectBJSData_console glyph_defs split: option.splits)
qed

lemma createSummary_lines:
  "\<exists>ls. console (snd (createSummary cdcData missouriData bjsData rt w)) =
     console w @ Log [Str (newline @ bar_chart @ '' Creating Combined Summary...'')] # ls"
  by (cases "writeFile_error rt (path_join (OUTPUT_DIR rt) ''summary.json'')";
      cases "writeFile_error rt (path_join (OUTPUT_DIR rt) ''website-stats.json'')";
      simp add: createSummary_apply Let_def)

subsection \<open>Runs of \<^verbatim>\<open>main\<close> and of the script\<close>

lemmas main_steps = main_def bind_io_apply console_log_apply return_io_apply array_includes_def

lemma main_all_fst:
  assumes "fst (ensureOutputDir rt w) = Inr ()"
  shows "fst (main [] rt w) =
     (case writeFile_error rt (path_join (OUTPUT_DIR rt) ''summary.json'') of
        Some e \<Rightarrow> Inl e
      | None \<Rightarrow>
          (case writeFile_error rt (path_join (OUTPUT_DIR rt) ''website-stats.json'') of
             Some e \<Rightarrow> Inl e
           | None \<Rightarrow> Inr ()))"
proof -
  from assms have ready: "fst (ensureOutputDir rt w') = Inr ()" for w'
    using ensureOutputDir_fst [of rt w' w] by simp
  obtain r1 r2 r3 where returns:
    "\<And>w. fst (collectCDCData rt w) = Inr (r1 w)"
    "\<And>w. fst (collectMissouriData rt w) = Inr (r2 w)"
    "\<And>w. fst (collectBJSData rt w) = Inr (r3 w)"
    using collectors_return [of rt] by blast
  show ?thesis
    by (cases "writeFile_error rt (path_join (OUTPUT_DIR rt) ''summary.json'')";
        cases "writeFile_error rt (path_join (OUTPUT_DIR rt) ''website-stats.json'')";
        simp add: main_steps ready returns createSummary_fst)
qed

lemma main_all_summary_file:
  assumes "fst (ensureOutputDir rt w) = Inr ()"
    and "writeFile_error rt (path_join (OUTPUT_DIR rt) ''summary.json'') = None"
  shows "files (snd (main [] rt w)) (path_join (OUTPUT_DIR rt) ''summary.json'')
       = Some (JSON_stringify (summary (clock rt (Suc (Suc (Suc (ticks w)))))) 2)"
proof -
  from assms have ready: "fst (ensureOutputDir rt w') = Inr ()" for w'
    using ensureOutputDir_fst [of rt w' w] by simp
  obtain r1 r2 r3 where returns:
    "\<And>w. fst (collectCDCData rt w) = Inr (r1 w)"
    "\<And>w. fst (collectMissouriData rt w) = Inr (r2 w)"
    "\<And>w. fst (collectBJSData rt w) = Inr (r3 w)"
    using collectors_return [of rt] by blast
  show ?thesis
    using assms(2)
    by (simp add: main_steps ready returns createSummary_ticks_files collectors_ticks
        ensureOutputDir_frame split: sum.splits)
qed

lemma main_rejects_with_mkdir:
  assumes "fst (ensureOutputDir rt w) = Inl e"
  shows "fst (main args rt w) = Inl e"
proof -
  from assms have "fst (ensureOutputDir rt w') = Inl e" for w'
    using ensureOutputDir_fst [of rt w' w] by simp
  then show ?thesis
    by (simp add: main_steps)
qed

lemma script_fulfilled: "fst (script args rt w) = Inr ()"
  by (cases "fst (main args rt w)")
     (simp_all add: script_def try_catch_apply console_error_def)

lemma exit_status_zero: "fst (node_collect_data args rt w) = 0"
proof (cases "script args rt w")
  case (Pair settled w')
  with script_fulfilled [of args rt w] show ?thesis
    by (simp add: node_collect_data_def exit_status_def)
qed

section \<open>The fetch outcome and the returned Dataset\<close>

text \<open>
  Claim C1 says that for all three Collectors the outcome of the fetch never changes
  the returned Dataset. The Missouri Collector only logs inside its inner \<^verbatim>\<open>try\<close>,
  and the BJS Collector sends no request, but \<^verbatim>\<open>collectCDCData\<close> pushes an entry
  inside its inner \<^verbatim>\<open>try\<close>. Amended claim C1: whether every request is answered
  with a page or rejected, and whatever the clock and the starting world, the Missouri
  and the BJS Collector return the same Dataset up to \<^verbatim>\<open>lastUpdated\<close>; the CDC
  Collector returns the same Dataset when the page cannot be loaded or its body text
  cannot be read, and otherwise the Dataset of the failure case with the entry
  \<open>cdc_live_statistic\<close> in front of its statistics.
\<close>

theorem fetch_outcome_and_returned_dataset:
  "up_to_lastUpdated (fst (collectMissouriData (rt\<lparr>net_response := \<lambda>req. Inr page, clock := c\<rparr>) w))
     = up_to_lastUpdated (fst (collectMissouriData (rt\<lparr>net_response := \<lambda>req. Inl err, clock := c'\<rparr>) w'))
   \<and> up_to_lastUpdated (fst (collectBJSData (rt\<lparr>net_response := \<lambda>req. Inr page, clock := c\<rparr>) w))
     = up_to_lastUpdated (fst (collectBJSData (rt\<lparr>net_response := \<lambda>req. Inl err, clock := c'\<rparr>) w'))
   \<and> (html_load rt page = None \<and> \<not> isl (select_text rt (Cheerio page) ''body'') \<longrightarrow>
        up_to_lastUpdated (fst (collectCDCData (rt\<lparr>net_response := \<lambda>req. Inr page, clock := c\<rparr>) w))
        = map_sum id (map_option with_live_statistic)
            (up_to_lastUpdated
              (fst (collectCDCData (rt\<lparr>net_response := \<lambda>req. Inl err, clock := c'\<rparr>) w'))))
   \<and> (html_load rt page \<noteq> None \<or> isl (select_text rt (Cheerio page) ''body'') \<longrightarrow>
        up_to_lastUpdated (fst (collectCDCData (rt\<lparr>net_response := \<lambda>req. Inr page, clock := c\<rparr>) w))
        = up_to_lastUpdated
            (fst (collectCDCData (rt\<lparr>net_response := \<lambda>req. Inl err, clock := c'\<rparr>) w')))"
proof (intro conjI impI)
  show "up_to_lastUpdated (fst (collectMissouriData (rt\<lparr>net_response := \<lambda>req. Inr page, clock := c\<rparr>) w))
     = up_to_lastUpdated (fst (collectMissouriData (rt\<lparr>net_response := \<lambda>req. Inl err, clock := c'\<rparr>) w'))"
    by (cases "writeFile_error rt (path_join (OUTPUT_DIR rt) ''missouri-doc.json'')")
       (simp_all add: collectMissouriData_fst up_to_lastUpdated_def blank_lastUpdated_def OUTPUT_DIR_def)
  show "up_to_lastUpdated (fst (collectBJSData (rt\<lparr>net_response := \<lambda>req. Inr page, clock := c\<rparr>) w))
     = up_to_lastUpdated (fst (collectBJSData (rt\<lparr>net_response := \<lambda>req. Inl err, clock := c'\<rparr>) w'))"
    by (cases "writeFile_error rt (path_join (OUTPUT_DIR rt) ''bjs-recidivism.json'')")
       (simp_all add: collectBJSData_fst up_to_lastUpdated_def blank_lastUpdated_def OUTPUT_DIR_def)
next
  assume "html_load rt page = None \<and> \<not> isl (select_text rt (Cheerio page) ''body'')"
  then have loaded: "cdc_page_loaded (rt\<lparr>net_response := \<lambda>req. Inr page, clock := c\<rparr>)"
    by (cases "select_text rt (Cheerio page) ''body''") (simp_all add: cdc_page_loaded_def)
  have unloaded: "\<not> cdc_page_loaded (rt\<lparr>net_response := \<lambda>req. Inl err, clock := c'\<rparr>)"
    by (simp add: cdc_page_loaded_def)
  show "up_to_lastUpdated (fst (collectCDCData (rt\<lparr>net_response := \<lambda>req. Inr page, clock := c\<rparr>) w))
        = map_sum id (map_option with_live_statistic)
            (up_to_lastUpdated
              (fst (collectCDCData (rt\<lparr>net_response := \<lambda>req. Inl err, clock := c'\<rparr>) w')))"
    using loaded unloaded
    by (cases "writeFile_error rt (path_join (OUTPUT_DIR rt) ''cdc-hiv-aids.json'')")
       (simp_all add: collectCDCData_fst up_to_lastUpdated_def blank_lastUpdated_def
          with_live_statistic_def OUTPUT_DIR_def)
next
  assume "html_load rt page \<noteq> None \<or> isl (select_text rt (Cheerio page) ''body'')"
  then have unloaded: "\<not> cdc_page_loaded (rt\<lparr>net_response := \<lambda>req. Inr page, clock := c\<rparr>)"
    by (cases "html_load rt page"; cases "select_text rt (Cheerio page) ''body''")
       (simp_all add: cdc_page_loaded_def)
  have unloaded': "\<not> cdc_page_loaded (rt\<lparr>net_response := \<lambda>req. Inl err, clock := c'\<rparr>)"
    by (simp add: cdc_page_loaded_def)
  show "up_to_lastUpdated (fst (collectCDCData (rt\<lparr>net_response := \<lambda>req. Inr page, clock := c\<rparr>) w))
        = up_to_lastUpdated
            (fst (collectCDCData (rt\<lparr>net_response := \<lambda>req. Inl err, clock := c'\<rparr>) w'))"
    using unloaded unloaded'
    by (cases "writeFile_error rt (path_join (OUTPUT_DIR rt) ''cdc-hiv-aids.json'')")
       (simp_all add: collectCDCData_fst up_to_lastUpdated_def blank_lastUpdated_def OUTPUT_DIR_def)
qed

text \<open>
  Witness for C1: the page of \<open>rt_online\<close> loads, and the CDC Dataset it gives is the
  offline one with the live entry in front.
\<close>

theorem fetch_outcome_and_returned_dataset_witness:
  "html_load rt_offline ''<html><body>ok</body></html>'' = None
   \<and> \<not> isl (select_text rt_offline (Cheerio ''<html><body>ok</body></html>'') ''body'')
   \<and> up_to_lastUpdated (fst (collectCDCData rt_online fresh))
       = map_sum id (map_option with_live_statistic)
           (up_to_lastUpdated (fst (collectCDCData rt_offline fresh)))"
  using fetch_outcome_and_returned_dataset
    [where rt = rt_offline and page = "''<html><body>ok</body></html>''"
       and c = "clock rt_offline" and c' = "clock rt_offline" and w = fresh and w' = fresh
       and err = "JsError (Some ''ENOTFOUND'') ''getaddrinfo ENOTFOUND''"]
  by (simp add: rt_online_def rt_offline_def)

text \<open>
  Counterexample to C1 as stated: with the same disk, clock and world, the CDC Collector
  returns different Datasets with and without network, also with the timestamp blanked.
\<close>

theorem fetch_outcome_changes_cdc_dataset_counterexample:
  "up_to_lastUpdated (fst (collectCDCData rt_online fresh))
     \<noteq> up_to_lastUpdated (fst (collectCDCData rt_offline fresh))"
proof -
  have "cdc_page_loaded rt_online" and "\<not> cdc_page_loaded rt_offline"
    by (simp_all add: cdc_page_loaded_def rt_online_def rt_offline_def)
  moreover have "writeFile_error rt_online (path_join (OUTPUT_DIR rt_online) ''cdc-hiv-aids.json'') = None"
    and "writeFile_error rt_offline (path_join (OUTPUT_DIR rt_offline) ''cdc-hiv-aids.json'') = None"
    by (simp_all add: rt_online_def rt_offline_def)
  ultimately show ?thesis
    by (simp add: collectCDCData_fst up_to_lastUpdated_def blank_lastUpdated_def)
qed

section \<open>Persistence failures inside a Collector\<close>

text \<open>
  Claim C2 says that a failed write of the Dataset file propagates out of the Collector as
  an error. The call of \<^verbatim>\<open>saveData\<close> is inside the outer \<^verbatim>\<open>try\<close> of each
  Collector, so the outer \<^verbatim>\<open>catch\<close> takes the error. Amended claim C2: when the write
  of its Dataset file fails, the Collector raises nothing; it logs the error message with
  \<^verbatim>\<open>console.error\<close> as its last console line and returns \<^verbatim>\<open>null\<close>.
\<close>

theorem write_failure_is_reported_as_null:
  "(writeFile_error rt (path_join (OUTPUT_DIR rt) ''cdc-hiv-aids.json'') = Some e \<longrightarrow>
      fst (collectCDCData rt w) = Inr None \<and>
      last (console (snd (collectCDCData rt w))) =
        Error [Str (''  '' @ ballot_x @ '' Error collecting CDC data:''), Str (message e)])
   \<and> (writeFile_error rt (path_join (OUTPUT_DIR rt) ''missouri-doc.json'') = Some e \<longrightarrow>
      fst (collectMissouriData rt w) = Inr None \<and>
      last (console (snd (collectMissouriData rt w))) =
        Error [Str (''  '' @ ballot_x @ '' Error collecting Missouri data:''), Str (message e)])
   \<and> (writeFile_error rt (path_join (OUTPUT_DIR rt) ''bjs-recidivism.json'') = Some e \<longrightarrow>
      fst (collectBJSData rt w) = Inr None \<and>
      last (console (snd (collectBJSData rt w))) =
        Error [Str (''  '' @ ballot_x @ '' Error collecting BJS data:''), Str (message e)])"
proof (intro conjI impI)
  assume "writeFile_error rt (path_join (OUTPUT_DIR rt) ''cdc-hiv-aids.json'') = Some e"
  then show "fst (collectCDCData rt w) = Inr None"
    and "last (console (snd (collectCDCData rt w))) =
        Error [Str (''  '' @ ballot_x @ '' Error collecting CDC data:''), Str (message e)]"
    by (simp_all add: collectCDCData_fst collectCDCData_console)
next
  assume "writeFile_error rt (path_join (OUTPUT_DIR rt) ''missouri-doc.json'') = Some e"
  then show "fst (collectMissouriData rt w) = Inr None"
    and "last (console (snd (collectMissouriData rt w))) =
        Error [Str (''  '' @ ballot_x @ '' Error collecting Missouri data:''), Str (message e)]"
    by (simp_all add: collectMissouriData_fst collectMissouriData_console)
next
  assume "writeFile_error rt (path_join (OUTPUT_DIR rt) ''bjs-recidivism.json'') = Some e"
  then show "fst (collectBJSData rt w) = Inr None"
    and "last (console (snd (collectBJSData rt w))) =
        Error [Str (''  '' @ ballot_x @ '' Error collecting BJS data:''), Str (message e)]"
    by (simp_all add: collectBJSData_fst collectBJSData_console)
qed

text \<open>
  Witness for C2: on a disk that rejects every write with \<^verbatim>\<open>EACCES\<close>, all three
  Collectors return \<^verbatim>\<open>null\<close>, and the BJS Collector ends with the error line.
\<close>

theorem write_failure_is_reported_as_null_witness:
  "writeFile_error rt_readonly (path_join (OUTPUT_DIR rt_readonly) ''cdc-hiv-aids.json'') = Some EACCES
   \<and> writeFile_error rt_readonly (path_join (OUTPUT_DIR rt_readonly) ''missouri-doc.json'') = Some EACCES
   \<and> writeFile_error rt_readonly (path_join (OUTPUT_DIR rt_readonly) ''bjs-recidivism.json'') = Some EACCES
   \<and> fst (collectCDCData rt_readonly fresh) = Inr None
   \<and> fst (collectMissouriData rt_readonly fresh) = Inr None
   \<and> fst (collectBJSData rt_readonly fresh) = Inr None
   \<and> last (console (snd (collectBJSData rt_readonly fresh))) =
        Error [Str (''  '' @ ballot_x @ '' Error collecting BJS data:''), Str (message EACCES)]"
  using write_failure_is_reported_as_null [of rt_readonly EACCES fresh]
  by (simp add: rt_readonly_def)

text \<open>
  Counterexample to C2 as stated: the write of \<^verbatim>\<open>bjs-recidivism.json\<close> fails, and the
  promise of \<^verbatim>\<open>collectBJSData\<close> is fulfilled, not rejected.
\<close>

theorem write_failure_propagates_counterexample:
  "writeFile_error rt_readonly (path_join (OUTPUT_DIR rt_readonly) ''bjs-recidivism.json'') = Some EACCES
   \<and> \<not> isl (fst (collectBJSData rt_readonly fresh))"
  by (simp add: collectBJSData_fst rt_readonly_def)

section \<open>Errors that escape \<^verbatim>\<open>main\<close> and the exit status\<close>

text \<open>
  Claim C3 says that an uncaught error during the run is logged and makes the process exit
  with a non-zero status. The script ends with \<^verbatim>\<open>main().catch(console.error)\<close> and
  has no \<^verbatim>\<open>process.exit\<close> and no assignment to \<^verbatim>\<open>process.exitCode\<close>, so a
  rejection of \<^verbatim>\<open>main\<close> is handled. Amended claim C3: an error that escapes
  \<^verbatim>\<open>main\<close> is logged with \<^verbatim>\<open>console.error\<close> as the last console line, a
  run without such an error prints nothing more than \<^verbatim>\<open>main\<close> did, and the exit
  status is zero in every case.
\<close>

theorem errors_are_logged_and_exit_status_is_zero:
  "fst (node_collect_data args rt w) = 0
   \<and> (fst (main args rt w) = Inl e \<longrightarrow>
        console (snd (node_collect_data args rt w))
          = console (snd (main args rt w)) @ [Error [Err e]])
   \<and> (fst (main args rt w) = Inr () \<longrightarrow>
        snd (node_collect_data args rt w) = snd (main args rt w))"
proof (intro conjI impI)
  show "fst (node_collect_data args rt w) = 0"
    by (rule exit_status_zero)
next
  assume "fst (main args rt w) = Inl e"
  then show "console (snd (node_collect_data args rt w))
          = console (snd (main args rt w)) @ [Error [Err e]]"
    by (simp add: node_collect_data_def script_def try_catch_apply console_error_def
        split: prod.splits)
next
  assume "fst (main args rt w) = Inr ()"
  then show "snd (node_collect_data args rt w) = snd (main args rt w)"
    by (simp add: node_collect_data_def script_def try_catch_apply split: prod.splits)
qed

text \<open>
  Witness for C3: the output directory cannot be created, \<^verbatim>\<open>main\<close> is rejected with
  that error, the error is the last console line and the status is zero.
\<close>

theorem errors_are_logged_and_exit_status_is_zero_witness:
  "fst (main [] rt_mkdir_denied fresh) = Inl EACCES
   \<and> fst (node_collect_data [] rt_mkdir_denied fresh) = 0
   \<and> console (snd (node_collect_data [] rt_mkdir_denied fresh))
       = console (snd (main [] rt_mkdir_denied fresh)) @ [Error [Err EACCES]]"
proof -
  have "fst (ensureOutputDir rt_mkdir_denied fresh) = Inl EACCES"
    by (simp add: ensureOutputDir_apply rt_mkdir_denied_def EACCES_def)
  then have "fst (main [] rt_mkdir_denied fresh) = Inl EACCES"
    by (rule main_rejects_with_mkdir)
  with errors_are_logged_and_exit_status_is_zero [of "[]" rt_mkdir_denied fresh EACCES]
  show ?thesis by simp
qed

text \<open>
  Counterexample to C3 as stated: the write of \<^verbatim>\<open>summary.json\<close> fails during
  aggregation, the error escapes \<^verbatim>\<open>main\<close>, and the exit status is zero.
\<close>

theorem uncaught_error_exits_zero_counterexample:
  "fst (main [] rt_summary_denied fresh) = Inl EACCES
   \<and> fst (node_collect_data [] rt_summary_denied fresh) = 0"
proof -
  have "fst (ensureOutputDir rt_summary_denied fresh) = Inr ()"
    by (simp add: ensureOutputDir_apply rt_summary_denied_def rt_online_def rt_offline_def)
  then have "fst (main [] rt_summary_denied fresh) = Inl EACCES"
    by (simp add: main_all_fst)
       (simp add: rt_summary_denied_def rt_online_def rt_offline_def OUTPUT_DIR_def path_join_def)
  moreover have "fst (node_collect_data [] rt_summary_denied fresh) = 0"
    by (rule exit_status_zero)
  ultimately show ?thesis by simp
qed

section \<open>Fetch failures inside a Collector\<close>

text \<open>
  Claim C4: a Collector whose fetch fails raises no error to its caller; the failure is
  caught inside the Collector and logged as a warning, and the Collector returns a
  Dataset with a non-empty \<^verbatim>\<open>statistics\<close>. The Dataset is returned after it was
  saved, so that part is stated for a disk that takes the write of the Dataset file; a
  failing write is the subject of C2. The BJS Collector sends no request: it never
  raises, and returns its Dataset whenever the write succeeds.
\<close>

theorem fetch_failure_never_propagates:
  "(net_response rt \<lparr>url = cdcUrl, headers = user_agent, timeout = 15000\<rparr> = Inl err \<longrightarrow>
      \<not> isl (fst (collectCDCData rt w)) \<and>
      Log [Str (''  '' @ warning_sign @ '' Could not fetch live CDC page, using cached statistics'')]
        \<in> set (console (snd (collectCDCData rt w))) \<and>
      (writeFile_error rt (path_join (OUTPUT_DIR rt) ''cdc-hiv-aids.json'') = None \<longrightarrow>
         (\<exists>d. fst (collectCDCData rt w) = Inr (Some d) \<and> statistics d \<noteq> [])))
   \<and> (net_response rt \<lparr>url = docUrl, headers = user_agent, timeout = 15000\<rparr> = Inl err \<longrightarrow>
      \<not> isl (fst (collectMissouriData rt w)) \<and>
      Log [Str (''  '' @ warning_sign @ '' Could not fetch live DOC page, using reference statistics'')]
        \<in> set (console (snd (collectMissouriData rt w))) \<and>
      (writeFile_error rt (path_join (OUTPUT_DIR rt) ''missouri-doc.json'') = None \<longrightarrow>
         (\<exists>d. fst (collectMissouriData rt w) = Inr (Some d) \<and> statistics d \<noteq> [])))
   \<and> \<not> isl (fst (collectBJSData rt w))
   \<and> (writeFile_error rt (path_join (OUTPUT_DIR rt) ''bjs-recidivism.json'') = None \<longrightarrow>
         (\<exists>d. fst (collectBJSData rt w) = Inr (Some d) \<and> statistics d \<noteq> []))"
proof (intro conjI impI)
  assume failed: "net_response rt \<lparr>url = cdcUrl, headers = user_agent, timeout = 15000\<rparr> = Inl err"
  then have unloaded: "\<not> cdc_page_loaded rt"
    by (simp add: cdc_page_loaded_def)
  show "\<not> isl (fst (collectCDCData rt w))"
    by (simp add: collectCDCData_fst)
  show "Log [Str (''  '' @ warning_sign @ '' Could not fetch live CDC page, using cached statistics'')]
        \<in> set (console (snd (collectCDCData rt w)))"
    using unloaded by (simp add: collectCDCData_console)
next
  assume "writeFile_error rt (path_join (OUTPUT_DIR rt) ''cdc-hiv-aids.json'') = None"
  then show "\<exists>d. fst (collectCDCData rt w) = Inr (Some d) \<and> statistics d \<noteq> []"
    by (simp add: collectCDCData_fst cdc_established_statistics_def)
next
  assume failed: "net_response rt \<lparr>url = docUrl, headers = user_agent, timeout = 15000\<rparr> = Inl err"
  then have unloaded: "\<not> doc_page_loaded rt"
    by (simp add: doc_page_loaded_def)
  show "\<not> isl (fst (collectMissouriData rt w))"
    by (simp add: collectMissouriData_fst)
  show "Log [Str (''  '' @ warning_sign @ '' Could not fetch live DOC page, using reference statistics'')]
        \<in> set (console (snd (collectMissouriData rt w)))"
    using unloaded by (simp add: collectMissouriData_console)
next
  assume "writeFile_error rt (path_join (OUTPUT_DIR rt) ''missouri-doc.json'') = None"
  then show "\<exists>d. fst (collectMissouriData rt w) = Inr (Some d) \<and> statistics d \<noteq> []"
    by (simp add: collectMissouriData_fst missouri_statistics_def)
next
  show "\<not> isl (fst (collectBJSData rt w))"
    by (simp add: collectBJSData_fst)
next
  assume "writeFile_error rt (path_join (OUTPUT_DIR rt) ''bjs-recidivism.json'') = None"
  then show "\<exists>d. fst (collectBJSData rt w) = Inr (Some d) \<and> statistics d \<noteq> []"
    by (simp add: collectBJSData_fst bjs_statistics_def)
qed

text \<open>
  Witness for C4: without network and with a writable disk, no Collector raises and all
  three return a Dataset with a non-empty \<^verbatim>\<open>statistics\<close>.
\<close>

theorem fetch_failure_never_propagates_witness:
  "net_response rt_offline \<lparr>url = cdcUrl, headers = user_agent, timeout = 15000\<rparr>
     = Inl (JsError (Some ''ENOTFOUND'') ''getaddrinfo ENOTFOUND'')
   \<and> net_response rt_offline \<lparr>url = docUrl, headers = user_agent, timeout = 15000\<rparr>
     = Inl (JsError (Some ''ENOTFOUND'') ''getaddrinfo ENOTFOUND'')
   \<and> writeFile_error rt_offline (path_join (OUTPUT_DIR rt_offline) ''cdc-hiv-aids.json'') = None
   \<and> writeFile_error rt_offline (path_join (OUTPUT_DIR rt_offline) ''missouri-doc.json'') = None
   \<and> writeFile_error rt_offline (path_join (OUTPUT_DIR rt_offline) ''bjs-recidivism.json'') = None
   \<and> \<not> isl (fst (collectCDCData rt_offline fresh))
   \<and> \<not> isl (fst (collectMissouriData rt_offline fresh))
   \<and> (\<exists>d. fst (collectCDCData rt_offline fresh) = Inr (Some d) \<and> statistics d \<noteq> [])
   \<and> (\<exists>d. fst (collectMissouriData rt_offline fresh) = Inr (Some d) \<and> statistics d \<noteq> [])
   \<and> (\<exists>d. fst (collectBJSData rt_offline fresh) = Inr (Some d) \<and> statistics d \<noteq> [])"
  using fetch_failure_never_propagates
    [of rt_offline "JsError (Some ''ENOTFOUND'') ''getaddrinfo ENOTFOUND''" fresh]
  by (simp add: rt_offline_def)

section \<open>The Aggregator does not read its inputs\<close>

text \<open>
  Claim C5: the output of \<^verbatim>\<open>createSummary\<close> does not depend on its three Dataset
  arguments. With the same runtime and world, any two triples of arguments give the same
  outcome and the same world; any two Summaries it returns, in whatever runs, are equal
  up to \<^verbatim>\<open>generatedAt\<close>; whenever it returns, \<^verbatim>\<open>website-stats.json\<close> holds a
  DisplayStats with exactly six entries; and two DisplayStats differ at most in
  \<^verbatim>\<open>lastUpdated\<close>.
\<close>

theorem createSummary_ignores_datasets:
  "createSummary cdcData missouriData bjsData rt w = createSummary cdcData' missouriData' bjsData' rt w
   \<and> (fst (createSummary cdcData missouriData bjsData rt w) = Inr s \<and>
      fst (createSummary cdcData' missouriData' bjsData' rt' w') = Inr s' \<longrightarrow>
        remove_property ''generatedAt'' s = remove_property ''generatedAt'' s')
   \<and> (fst (createSummary cdcData missouriData bjsData rt w) = Inr s \<longrightarrow>
        (\<exists>t entries.
           files (snd (createSummary cdcData missouriData bjsData rt w))
             (path_join (OUTPUT_DIR rt) ''website-stats.json'') = Some (JSON_stringify (websiteStats t) 2) \<and>
           property ''stats'' (websiteStats t) = Some (JArray entries) \<and> length entries = 6))
   \<and> remove_property ''lastUpdated'' (websiteStats t) = remove_property ''lastUpdated'' (websiteStats t')"
proof (intro conjI impI)
  show "createSummary cdcData missouriData bjsData rt w
      = createSummary cdcData' missouriData' bjsData' rt w"
    by (simp add: createSummary_def)
  show "remove_property ''lastUpdated'' (websiteStats t) = remove_property ''lastUpdated'' (websiteStats t')"
    by (simp add: websiteStats_def)
next
  assume "fst (createSummary cdcData missouriData bjsData rt w) = Inr s \<and>
      fst (createSummary cdcData' missouriData' bjsData' rt' w') = Inr s'"
  then have "s = summary (clock rt (ticks w))" and "s' = summary (clock rt' (ticks w'))"
    by (auto simp add: createSummary_apply Let_def split: option.splits)
  then show "remove_property ''generatedAt'' s = remove_property ''generatedAt'' s'"
    by (simp add: summary_def)
next
  assume "fst (createSummary cdcData missouriData bjsData rt w) = Inr s"
  then have "files (snd (createSummary cdcData missouriData bjsData rt w))
             (path_join (OUTPUT_DIR rt) ''website-stats.json'')
           = Some (JSON_stringify (websiteStats (clock rt (Suc (ticks w)))) 2)"
    by (auto simp add: createSummary_apply Let_def split: option.splits)
  moreover have "\<exists>entries. property ''stats'' (websiteStats (clock rt (Suc (ticks w)))) = Some (JArray entries)
      \<and> length entries = 6"
    by (simp add: websiteStats_def)
  ultimately show "\<exists>t entries.
           files (snd (createSummary cdcData missouriData bjsData rt w))
             (path_join (OUTPUT_DIR rt) ''website-stats.json'') = Some (JSON_stringify (websiteStats t) 2) \<and>
           property ''stats'' (websiteStats t) = Some (JArray entries) \<and> length entries = 6"
    by blast
qed

text \<open>
  Witness for C5: two runs of the Aggregator on writable disks return Summaries that are
  equal up to \<^verbatim>\<open>generatedAt\<close>, and the DisplayStats written has six entries.
\<close>

theorem createSummary_ignores_datasets_witness:
  "fst (createSummary None None None rt_offline fresh) = Inr (summary (clock rt_offline 0))
   \<and> fst (createSummary None None None rt_online fresh) = Inr (summary (clock rt_online 0))
   \<and> remove_property ''generatedAt'' (summary (clock rt_offline 0))
       = remove_property ''generatedAt'' (summary (clock rt_online 0))
   \<and> (\<exists>t entries.
         files (snd (createSummary None None None rt_offline fresh))
           (path_join (OUTPUT_DIR rt_offline) ''website-stats.json'')
           = Some (JSON_stringify (websiteStats t) 2) \<and>
         property ''stats'' (websiteStats t) = Some (JArray entries) \<and> length entries = 6)"
proof -
  have offline: "fst (createSummary None None None rt_offline fresh) = Inr (summary (clock rt_offline 0))"
    and online: "fst (createSummary None None None rt_online fresh) = Inr (summary (clock rt_online 0))"
    by (simp_all add: createSummary_apply Let_def rt_online_def rt_offline_def fresh_def)
  note claim = createSummary_ignores_datasets
    [where cdcData = None and missouriData = None and bjsData = None and rt = rt_offline
       and w = fresh and s = "summary (clock rt_offline 0)"
       and cdcData' = None and missouriData' = None and bjsData' = None and rt' = rt_online
       and w' = fresh and s' = "summary (clock rt_online 0)"]
  from claim offline online show ?thesis
    by simp
qed

section \<open>Unknown command-line flags\<close>

text \<open>
  Claim C6 says that every argument list behaves like the list filtered down to the four
  recognized flags. \<^verbatim>\<open>collectAll\<close> tests \<^verbatim>\<open>args.length === 0\<close> on the
  unfiltered list, so a list of unknown flags only is not empty and selects nothing.
  Amended claim C6: an argument list that is empty or contains at least one recognized
  flag behaves exactly like the list filtered down to the recognized flags; a non-empty
  list without any recognized flag runs no Collector and no Aggregator: it writes no
  file, sends no request and reads no clock.
\<close>

theorem unknown_flags_beside_a_recognized_flag_are_ignored:
  "(args = [] \<or> (\<exists>a \<in> set args. recognized_flag a) \<longrightarrow>
      main args rt w = main (filter recognized_flag args) rt w)
   \<and> (args \<noteq> [] \<and> (\<forall>a \<in> set args. \<not> recognized_flag a) \<longrightarrow>
        files (snd (main args rt w)) = files w \<and>
        requests (snd (main args rt w)) = requests w \<and>
        ticks (snd (main args rt w)) = ticks w)"
proof (intro conjI impI)
  assume some: "args = [] \<or> (\<exists>a \<in> set args. recognized_flag a)"
  have kept: "array_includes (filter recognized_flag args) x = array_includes args x"
    if "recognized_flag x" for x
    using that by (auto simp add: array_includes_def)
  from some have empty: "(filter recognized_flag args = []) = (args = [])"
    by (auto simp add: filter_empty_conv)
  have "main (filter recognized_flag args) rt w = main args rt w"
    by (simp add: main_def kept empty recognized_flag_def)
  then show "main args rt w = main (filter recognized_flag args) rt w"
    by simp
next
  assume none: "args \<noteq> [] \<and> (\<forall>a \<in> set args. \<not> recognized_flag a)"
  then have flags: "''--all'' \<notin> set args" "''--cdc'' \<notin> set args"
    "''--missouri'' \<notin> set args" "''--bjs'' \<notin> set args"
    by (auto simp add: recognized_flag_def)
  from none flags show "files (snd (main args rt w)) = files w"
    "requests (snd (main args rt w)) = requests w"
    "ticks (snd (main args rt w)) = ticks w"
    by (simp_all add: main_steps ensureOutputDir_frame split: sum.splits)
qed

text \<open>
  Witness for C6: \<^verbatim>\<open>--verbose --bjs\<close> behaves like \<^verbatim>\<open>--bjs\<close>, and
  \<^verbatim>\<open>--verbose\<close> alone writes no file.
\<close>

theorem unknown_flags_beside_a_recognized_flag_are_ignored_witness:
  "recognized_flag ''--bjs''
   \<and> \<not> recognized_flag ''--verbose''
   \<and> main [''--verbose'', ''--bjs''] rt_offline fresh = main [''--bjs''] rt_offline fresh
   \<and> files (snd (main [''--verbose''] rt_offline fresh)) = Map.empty"
proof -
  have known: "recognized_flag ''--bjs''" and unknown: "\<not> recognized_flag ''--verbose''"
    by (simp_all add: recognized_flag_def)
  from known unknown unknown_flags_beside_a_recognized_flag_are_ignored
    [of "[''--verbose'', ''--bjs'']" rt_offline fresh]
  have "main [''--verbose'', ''--bjs''] rt_offline fresh = main [''--bjs''] rt_offline fresh"
    by simp
  moreover from unknown unknown_flags_beside_a_recognized_flag_are_ignored
    [of "[''--verbose'']" rt_offline fresh]
  have "files (snd (main [''--verbose''] rt_offline fresh)) = Map.empty"
    by (simp add: fresh_def)
  ultimately show ?thesis
    using known unknown by simp
qed

text \<open>
  Counterexample to C6 as stated: \<^verbatim>\<open>--verbose\<close> filters down to the empty list,
  but the run with \<^verbatim>\<open>--verbose\<close> leaves \<^verbatim>\<open>summary.json\<close> absent while the
  run with the empty list writes it.
\<close>

theorem unknown_flag_alone_is_not_ignored_counterexample:
  "filter recognized_flag [''--verbose''] = []
   \<and> files (snd (main [''--verbose''] rt_offline fresh))
       (path_join (OUTPUT_DIR rt_offline) ''summary.json'') = None
   \<and> files (snd (main (filter recognized_flag [''--verbose'']) rt_offline fresh))
       (path_join (OUTPUT_DIR rt_offline) ''summary.json'') \<noteq> None"
proof -
  have nothing: "filter recognized_flag [''--verbose''] = []"
    by (simp add: recognized_flag_def)
  have "files (snd (main [''--verbose''] rt_offline fresh))
       (path_join (OUTPUT_DIR rt_offline) ''summary.json'') = None"
    by (simp add: main_steps ensureOutputDir_frame fresh_def split: sum.splits)
  moreover have "fst (ensureOutputDir rt_offline fresh) = Inr ()"
    and "writeFile_error rt_offline (path_join (OUTPUT_DIR rt_offline) ''summary.json'') = None"
    by (simp_all add: ensureOutputDir_apply rt_offline_def)
  then have "files (snd (main [] rt_offline fresh))
       (path_join (OUTPUT_DIR rt_offline) ''summary.json'') \<noteq> None"
    by (simp add: main_all_summary_file)
  ultimately show ?thesis
    by (simp add: recognized_flag_def)
qed

section \<open>Requests sent\<close>

text \<open>
  Claim C7 says that each of the three Collectors sends a GET request, so that a full run
  sends three. \<^verbatim>\<open>collectBJSData\<close> has no \<^verbatim>\<open>axios.get\<close>. Amended claim C7: the
  CDC and the Missouri Collector each send exactly one GET request, to their fixed URL,
  with the \<^verbatim>\<open>User-Agent\<close> header and a timeout of 15000 milliseconds; the BJS
  Collector sends none; a full run that gets past the creation of the output directory
  sends exactly these two requests, in this order.
\<close>

theorem only_two_collectors_send_a_request:
  "requests (snd (collectCDCData rt w)) =
     requests w @ [\<lparr>url = ''https://www.cdc.gov/hiv/group/correctional.html'',
                    headers = [(''User-Agent'', ''Mozilla/5.0 (compatible; DataBot/1.0)'')],
                    timeout = 15000\<rparr>]
   \<and> requests (snd (collectMissouriData rt w)) =
     requests w @ [\<lparr>url = ''https://doc.mo.gov/media-center/newsroom/data-and-statistics'',
                    headers = [(''User-Agent'', ''Mozilla/5.0 (compatible; DataBot/1.0)'')],
                    timeout = 15000\<rparr>]
   \<and> requests (snd (collectBJSData rt w)) = requests w
   \<and> (fst (ensureOutputDir rt w) = Inr () \<longrightarrow>
        requests (snd (main [] rt w)) =
          requests w @
            [\<lparr>url = ''https://www.cdc.gov/hiv/group/correctional.html'',
              headers = [(''User-Agent'', ''Mozilla/5.0 (compatible; DataBot/1.0)'')],
              timeout = 15000\<rparr>,
             \<lparr>url = ''https://doc.mo.gov/media-center/newsroom/data-and-statistics'',
              headers = [(''User-Agent'', ''Mozilla/5.0 (compatible; DataBot/1.0)'')],
              timeout = 15000\<rparr>])"
proof (intro conjI impI)
  show "requests (snd (collectCDCData rt w)) =
     requests w @ [\<lparr>url = ''https://www.cdc.gov/hiv/group/correctional.html'',
                    headers = [(''User-Agent'', ''Mozilla/5.0 (compatible; DataBot/1.0)'')],
                    timeout = 15000\<rparr>]"
    by (simp add: collectors_requests cdcUrl_def user_agent_def)
  show "requests (snd (collectMissouriData rt w)) =
     requests w @ [\<lparr>url = ''https://doc.mo.gov/media-center/newsroom/data-and-statistics'',
                    headers = [(''User-Agent'', ''Mozilla/5.0 (compatible; DataBot/1.0)'')],
                    timeout = 15000\<rparr>]"
    by (simp add: collectors_requests docUrl_def user_agent_def)
  show "requests (snd (collectBJSData rt w)) = requests w"
    by (simp add: collectors_requests)
next
  assume "fst (ensureOutputDir rt w) = Inr ()"
  then have ready: "fst (ensureOutputDir rt w') = Inr ()" for w'
    using ensureOutputDir_fst [of rt w' w] by simp
  obtain r1 r2 r3 where returns:
    "\<And>w. fst (collectCDCData rt w) = Inr (r1 w)"
    "\<And>w. fst (collectMissouriData rt w) = Inr (r2 w)"
    "\<And>w. fst (collectBJSData rt w) = Inr (r3 w)"
    using collectors_return [of rt] by blast
  have "requests (snd (main [] rt w)) =
          requests w @
            [\<lparr>url = cdcUrl, headers = user_agent, timeout = 15000\<rparr>,
             \<lparr>url = docUrl, headers = user_agent, timeout = 15000\<rparr>]"
    by (simp add: main_steps ready returns collectors_requests createSummary_requests
        ensureOutputDir_frame split: sum.splits)
  then show "requests (snd (main [] rt w)) =
          requests w @
            [\<lparr>url = ''https://www.cdc.gov/hiv/group/correctional.html'',
              headers = [(''User-Agent'', ''Mozilla/5.0 (compatible; DataBot/1.0)'')],
              timeout = 15000\<rparr>,
             \<lparr>url = ''https://doc.mo.gov/media-center/newsroom/data-and-statistics'',
              headers = [(''User-Agent'', ''Mozilla/5.0 (compatible; DataBot/1.0)'')],
              timeout = 15000\<rparr>]"
    by (simp add: cdcUrl_def docUrl_def user_agent_def)
qed

text \<open>
  Witness for C7: a full run with network sends two requests, to the CDC and the Missouri
  URL.
\<close>

theorem only_two_collectors_send_a_request_witness:
  "fst (ensureOutputDir rt_online fresh) = Inr ()
   \<and> length (requests (snd (main [] rt_online fresh))) = 2
   \<and> map url (requests (snd (main [] rt_online fresh))) =
       [''https://www.cdc.gov/hiv/group/correctional.html'',
        ''https://doc.mo.gov/media-center/newsroom/data-and-statistics'']"
proof -
  have ready: "fst (ensureOutputDir rt_online fresh) = Inr ()"
    by (simp add: ensureOutputDir_apply rt_online_def rt_offline_def)
  with only_two_collectors_send_a_request [of rt_online fresh] show ?thesis
    by (simp add: fresh_def)
qed

text \<open>
  Counterexample to C7 as stated: the BJS Collector sends no request, and a full run
  sends two requests, not three.
\<close>

theorem bjs_collector_sends_no_request_counterexample:
  "requests (snd (collectBJSData rt_online fresh)) = []
   \<and> length (requests (snd (main [] rt_online fresh))) = 2"
proof -
  have ready: "fst (ensureOutputDir rt_online w') = Inr ()" for w'
    by (simp add: ensureOutputDir_apply rt_online_def rt_offline_def)
  obtain r1 r2 r3 where returns:
    "\<And>w. fst (collectCDCData rt_online w) = Inr (r1 w)"
    "\<And>w. fst (collectMissouriData rt_online w) = Inr (r2 w)"
    "\<And>w. fst (collectBJSData rt_online w) = Inr (r3 w)"
    using collectors_return [of rt_online] by blast
  have "length (requests (snd (main [] rt_online fresh))) = 2"
    by (simp add: main_steps ready returns collectors_requests createSummary_requests
        ensureOutputDir_frame fresh_def split: sum.splits)
  then show ?thesis
    by (simp add: collectors_requests fresh_def)
qed

section \<open>The run with \<^verbatim>\<open>--cdc\<close> alone\<close>

text \<open>
  Claim C8: run with the single flag \<^verbatim>\<open>--cdc\<close>, the program writes no file other
  than \<^verbatim>\<open>cdc-hiv-aids.json\<close>: every other path, \<^verbatim>\<open>summary.json\<close> among them,
  holds after the run what it held before. When the output directory is there and the
  write succeeds, \<^verbatim>\<open>cdc-hiv-aids.json\<close> holds the CDC Dataset.
\<close>

theorem cdc_flag_writes_only_the_cdc_file:
  "(\<forall>p. p \<noteq> path_join (OUTPUT_DIR rt) ''cdc-hiv-aids.json'' \<longrightarrow>
        files (snd (main [''--cdc''] rt w)) p = files w p)
   \<and> (fst (ensureOutputDir rt w) = Inr () \<and>
      writeFile_error rt (path_join (OUTPUT_DIR rt) ''cdc-hiv-aids.json'') = None \<longrightarrow>
        (\<exists>d. files (snd (main [''--cdc''] rt w)) (path_join (OUTPUT_DIR rt) ''cdc-hiv-aids.json'')
               = Some (JSON_stringify (dataset_json d) 2)
             \<and> source d = ''CDC - Centers for Disease Control and Prevention''))"
proof (intro conjI allI impI)
  obtain r1 where returns: "\<And>w. fst (collectCDCData rt w) = Inr (r1 w)"
    using collectors_return(1) [of rt] by blast
  fix p
  assume "p \<noteq> path_join (OUTPUT_DIR rt) ''cdc-hiv-aids.json''"
  then show "files (snd (main [''--cdc''] rt w)) p = files w p"
    by (simp add: main_steps returns collectors_files_frame ensureOutputDir_frame
        split: sum.splits)
next
  assume ok: "fst (ensureOutputDir rt w) = Inr () \<and>
      writeFile_error rt (path_join (OUTPUT_DIR rt) ''cdc-hiv-aids.json'') = None"
  then have ready: "fst (ensureOutputDir rt w') = Inr ()" for w'
    using ensureOutputDir_fst [of rt w' w] by simp
  obtain r1 where returns: "\<And>w. fst (collectCDCData rt w) = Inr (r1 w)"
    using collectors_return(1) [of rt] by blast
  from ok have "\<exists>d. \<forall>w. files (snd (collectCDCData rt w)) (path_join (OUTPUT_DIR rt) ''cdc-hiv-aids.json'')
               = Some (JSON_stringify (dataset_json (d w)) 2)
             \<and> source (d w) = ''CDC - Centers for Disease Control and Prevention''"
    using collectors_files_written(1) [of rt] by metis
  then obtain d where written:
    "\<And>w. files (snd (collectCDCData rt w)) (path_join (OUTPUT_DIR rt) ''cdc-hiv-aids.json'')
               = Some (JSON_stringify (dataset_json (d w)) 2)"
    "\<And>w. source (d w) = ''CDC - Centers for Disease Control and Prevention''"
    by blast
  show "\<exists>d. files (snd (main [''--cdc''] rt w)) (path_join (OUTPUT_DIR rt) ''cdc-hiv-aids.json'')
               = Some (JSON_stringify (dataset_json d) 2)
             \<and> source d = ''CDC - Centers for Disease Control and Prevention''"
    using written(2)
    by (simp add: main_steps ready returns written(1) ensureOutputDir_frame) blast
qed

text \<open>
  Witness for C8: on a fresh writable disk the run with \<^verbatim>\<open>--cdc\<close> leaves
  \<^verbatim>\<open>summary.json\<close> absent and writes \<^verbatim>\<open>cdc-hiv-aids.json\<close>.
\<close>

theorem cdc_flag_writes_only_the_cdc_file_witness:
  "path_join (OUTPUT_DIR rt_offline) ''summary.json''
     \<noteq> path_join (OUTPUT_DIR rt_offline) ''cdc-hiv-aids.json''
   \<and> files (snd (main [''--cdc''] rt_offline fresh)) (path_join (OUTPUT_DIR rt_offline) ''summary.json'')
       = None
   \<and> fst (ensureOutputDir rt_offline fresh) = Inr ()
   \<and> writeFile_error rt_offline (path_join (OUTPUT_DIR rt_offline) ''cdc-hiv-aids.json'') = None
   \<and> files (snd (main [''--cdc''] rt_offline fresh)) (path_join (OUTPUT_DIR rt_offline) ''cdc-hiv-aids.json'')
       \<noteq> None"
proof -
  have ready: "fst (ensureOutputDir rt_offline fresh) = Inr ()"
    and writable: "writeFile_error rt_offline (path_join (OUTPUT_DIR rt_offline) ''cdc-hiv-aids.json'') = None"
    by (simp_all add: ensureOutputDir_apply rt_offline_def)
  have other: "path_join (OUTPUT_DIR rt_offline) ''summary.json''
     \<noteq> path_join (OUTPUT_DIR rt_offline) ''cdc-hiv-aids.json''"
    by simp
  note claim = cdc_flag_writes_only_the_cdc_file [of rt_offline fresh]
  from claim other
  have "files (snd (main [''--cdc''] rt_offline fresh)) (path_join (OUTPUT_DIR rt_offline) ''summary.json'')
      = files fresh (path_join (OUTPUT_DIR rt_offline) ''summary.json'')"
    by blast
  moreover from claim ready writable
  have "files (snd (main [''--cdc''] rt_offline fresh)) (path_join (OUTPUT_DIR rt_offline) ''cdc-hiv-aids.json'')
       \<noteq> None"
    by auto
  ultimately show ?thesis
    using ready writable other by (simp add: fresh_def)
qed

section \<open>Well-formed StatEntries\<close>

text \<open>
  Claim C9: in every Dataset that a Collector returns, every StatEntry of
  \<^verbatim>\<open>statistics\<close> has a non-empty \<^verbatim>\<open>metric\<close>, a non-empty \<^verbatim>\<open>value\<close> and a
  source of its own or of the Dataset. The same holds for the entries nested in
  \<^verbatim>\<open>africanAmericanWomenStatistics\<close> of the BJS Dataset.
\<close>

theorem every_stat_entry_well_formed:
  "(fst (collectCDCData rt w) = Inr (Some d) \<longrightarrow> list_all (well_formed_entry d) (statistics d))
   \<and> (fst (collectMissouriData rt w) = Inr (Some d) \<longrightarrow>
        list_all (well_formed_entry d) (statistics d))
   \<and> (fst (collectBJSData rt w) = Inr (Some d) \<longrightarrow> list_all (well_formed_entry d) (statistics d))
   \<and> (fst (collectBJSData rt w) = Inr (Some d) \<longrightarrow>
        (case map_of (sections d) ''africanAmericanWomenStatistics'' of
           None \<Rightarrow> False
         | Some nested \<Rightarrow>
             (case property ''statistics'' nested of
                Some (JArray entries) \<Rightarrow> list_all (well_formed_entry d) entries
              | _ \<Rightarrow> False)))"
proof (intro conjI impI)
  assume "fst (collectCDCData rt w) = Inr (Some d)"
  then have "statistics d =
      (if cdc_page_loaded rt then [cdc_live_statistic] else []) @ cdc_established_statistics"
    by (cases "writeFile_error rt (path_join (OUTPUT_DIR rt) ''cdc-hiv-aids.json'')")
       (auto simp add: collectCDCData_fst)
  then show "list_all (well_formed_entry d) (statistics d)"
    by (simp add: cdc_live_statistic_def cdc_established_statistics_def well_formed_entry_def
        nonempty_string_def)
next
  assume "fst (collectMissouriData rt w) = Inr (Some d)"
  then have "statistics d = missouri_statistics"
    by (cases "writeFile_error rt (path_join (OUTPUT_DIR rt) ''missouri-doc.json'')")
       (auto simp add: collectMissouriData_fst)
  then show "list_all (well_formed_entry d) (statistics d)"
    by (simp add: missouri_statistics_def well_formed_entry_def nonempty_string_def)
next
  assume "fst (collectBJSData rt w) = Inr (Some d)"
  then have "statistics d = bjs_statistics"
    by (cases "writeFile_error rt (path_join (OUTPUT_DIR rt) ''bjs-recidivism.json'')")
       (auto simp add: collectBJSData_fst)
  then show "list_all (well_formed_entry d) (statistics d)"
    by (simp add: bjs_statistics_def well_formed_entry_def nonempty_string_def)
next
  assume "fst (collectBJSData rt w) = Inr (Some d)"
  then have "sections d =
      [(''africanAmericanWomenStatistics'', bjs_africanAmericanWomenStatistics),
       (''whatWorks'', bjs_whatWorks), (''resources'', bjs_resources)]"
    by (cases "writeFile_error rt (path_join (OUTPUT_DIR rt) ''bjs-recidivism.json'')")
       (auto simp add: collectBJSData_fst)
  then show "case map_of (sections d) ''africanAmericanWomenStatistics'' of
           None \<Rightarrow> False
         | Some nested \<Rightarrow>
             (case property ''statistics'' nested of
                Some (JArray entries) \<Rightarrow> list_all (well_formed_entry d) entries
              | _ \<Rightarrow> False)"
    by (simp add: bjs_africanAmericanWomenStatistics_def well_formed_entry_def
        nonempty_string_def)
qed

text \<open>
  Witness for C9: the CDC Dataset collected with network has five entries, all well
  formed.
\<close>

theorem every_stat_entry_well_formed_witness:
  "\<exists>d. fst (collectCDCData rt_online fresh) = Inr (Some d)
      \<and> length (statistics d) = 5
      \<and> list_all (well_formed_entry d) (statistics d)"
proof -
  have "cdc_page_loaded rt_online"
    and "writeFile_error rt_online (path_join (OUTPUT_DIR rt_online) ''cdc-hiv-aids.json'') = None"
    by (simp_all add: cdc_page_loaded_def rt_online_def rt_offline_def)
  then obtain d where returned: "fst (collectCDCData rt_online fresh) = Inr (Some d)"
    and five: "length (statistics d) = 5"
    by (simp add: collectCDCData_fst cdc_established_statistics_def)
  from returned every_stat_entry_well_formed [of rt_online fresh d]
  have "list_all (well_formed_entry d) (statistics d)"
    by simp
  with returned five show ?thesis
    by blast
qed

section \<open>When the Aggregator runs\<close>

text \<open>
  Claim C10: in a run that gets past the creation of the output directory, the Aggregator
  prints its first line if and only if the argument list is empty or contains
  \<^verbatim>\<open>--all\<close>. With the list \<^verbatim>\<open>--cdc --missouri --bjs\<close> all three Collectors
  run (each prints its first line, and each leaves its Dataset in its file unless the
  write of that file fails), while \<^verbatim>\<open>summary.json\<close> and
  \<^verbatim>\<open>website-stats.json\<close> hold what they held before.
\<close>

theorem aggregator_runs_iff_all:
  assumes "fst (ensureOutputDir rt w) = Inr ()"
  shows
  "(Log [Str (newline @ bar_chart @ '' Creating Combined Summary...'')]
        \<in> set (printed w (snd (main args rt w)))
      \<longleftrightarrow> args = [] \<or> ''--all'' \<in> set args)
   \<and> Log [Str (newline @ bar_chart @ '' Collecting CDC HIV/AIDS Data...'')]
        \<in> set (printed w (snd (main [''--cdc'', ''--missouri'', ''--bjs''] rt w)))
   \<and> Log [Str (newline @ bar_chart @ '' Collecting Missouri Department of Corrections Data...'')]
        \<in> set (printed w (snd (main [''--cdc'', ''--missouri'', ''--bjs''] rt w)))
   \<and> Log [Str (newline @ bar_chart @ '' Collecting Bureau of Justice Statistics Data...'')]
        \<in> set (printed w (snd (main [''--cdc'', ''--missouri'', ''--bjs''] rt w)))
   \<and> files (snd (main [''--cdc'', ''--missouri'', ''--bjs''] rt w))
        (path_join (OUTPUT_DIR rt) ''summary.json'')
      = files w (path_join (OUTPUT_DIR rt) ''summary.json'')
   \<and> files (snd (main [''--cdc'', ''--missouri'', ''--bjs''] rt w))
        (path_join (OUTPUT_DIR rt) ''website-stats.json'')
      = files w (path_join (OUTPUT_DIR rt) ''website-stats.json'')
   \<and> (writeFile_error rt (path_join (OUTPUT_DIR rt) ''cdc-hiv-aids.json'') = None \<longrightarrow>
        (\<exists>d. files (snd (main [''--cdc'', ''--missouri'', ''--bjs''] rt w))
                (path_join (OUTPUT_DIR rt) ''cdc-hiv-aids.json'')
               = Some (JSON_stringify (dataset_json d) 2)
             \<and> source d = ''CDC - Centers for Disease Control and Prevention''))
   \<and> (writeFile_error rt (path_join (OUTPUT_DIR rt) ''missouri-doc.json'') = None \<longrightarrow>
        (\<exists>d. files (snd (main [''--cdc'', ''--missouri'', ''--bjs''] rt w))
                (path_join (OUTPUT_DIR rt) ''missouri-doc.json'')
               = Some (JSON_stringify (dataset_json d) 2)
             \<and> source d = ''Missouri Department of Corrections''))
   \<and> (writeFile_error rt (path_join (OUTPUT_DIR rt) ''bjs-recidivism.json'') = None \<longrightarrow>
        (\<exists>d. files (snd (main [''--cdc'', ''--missouri'', ''--bjs''] rt w))
                (path_join (OUTPUT_DIR rt) ''bjs-recidivism.json'')
               = Some (JSON_stringify (dataset_json d) 2)
             \<and> source d = ''Bureau of Justice Statistics (BJS)''))"
proof -
  from assms have ready: "fst (ensureOutputDir rt w') = Inr ()" for w'
    using ensureOutputDir_fst [of rt w' w] by simp
  obtain r1 r2 r3 where returns:
    "\<And>w. fst (collectCDCData rt w) = Inr (r1 w)"
    "\<And>w. fst (collectMissouriData rt w) = Inr (r2 w)"
    "\<And>w. fst (collectBJSData rt w) = Inr (r3 w)"
    using collectors_return [of rt] by blast
  obtain l1 where l1: "\<And>w. console (snd (collectCDCData rt w)) = console w @ l1"
    "Log [Str (newline @ bar_chart @ '' Collecting CDC HIV/AIDS Data...'')] \<in> set l1"
    "Log [Str (newline @ bar_chart @ '' Creating Combined Summary...'')] \<notin> set l1"
    using collectors_lines(1) [of rt] by blast
  obtain l2 where l2: "\<And>w. console (snd (collectMissouriData rt w)) = console w @ l2"
    "Log [Str (newline @ bar_chart @ '' Collecting Missouri Department of Corrections Data...'')]
       \<in> set l2"
    "Log [Str (newline @ bar_chart @ '' Creating Combined Summary...'')] \<notin> set l2"
    using collectors_lines(2) [of rt] by blast
  obtain l3 where l3: "\<And>w. console (snd (collectBJSData rt w)) = console w @ l3"
    "Log [Str (newline @ bar_chart @ '' Collecting Bureau of Justice Statistics Data...'')]
       \<in> set l3"
    "Log [Str (newline @ bar_chart @ '' Creating Combined Summary...'')] \<notin> set l3"
    using collectors_lines(3) [of rt] by blast
  have "\<exists>l. \<forall>a b c w. console (snd (createSummary a b c rt w)) =
      console w @ Log [Str (newline @ bar_chart @ '' Creating Combined Summary...'')] # l a b c w"
    using createSummary_lines [of _ _ _ rt] by metis
  then obtain l4 where l4: "\<And>a b c w. console (snd (createSummary a b c rt w)) =
      console w @ Log [Str (newline @ bar_chart @ '' Creating Combined Summary...'')] # l4 a b c w"
    by blast
  obtain rest where rule: "rule60 = CHR 0xE2 # rest"
    using rule60_starts by blast
  note steps = main_steps ready returns ensureOutputDir_frame printed_def
  have aggregator: "Log [Str (newline @ bar_chart @ '' Creating Combined Summary...'')]
        \<in> set (printed w (snd (main args rt w)))
      \<longleftrightarrow> args = [] \<or> ''--all'' \<in> set args"
  proof (cases "args = [] \<or> ''--all'' \<in> set args")
    case True
    then show ?thesis
      by (simp add: steps l1(1) l2(1) l3(1) l4 split: sum.splits)
  next
    case False
    then show ?thesis
      using l1(3) l2(3) l3(3)
      by (simp add: steps l1(1) l2(1) l3(1) glyph_defs box_vertical_def box_down_right_def
          box_up_right_def rule)
  qed
  let ?w3 = "snd (main [''--cdc'', ''--missouri'', ''--bjs''] rt w)"
  have banners:
    "Log [Str (newline @ bar_chart @ '' Collecting CDC HIV/AIDS Data...'')] \<in> set (printed w ?w3)"
    "Log [Str (newline @ bar_chart @ '' Collecting Missouri Department of Corrections Data...'')]
        \<in> set (printed w ?w3)"
    "Log [Str (newline @ bar_chart @ '' Collecting Bureau of Justice Statistics Data...'')]
        \<in> set (printed w ?w3)"
    using l1(2) l2(2) l3(2) by (simp_all add: steps l1(1) l2(1) l3(1))
  have untouched:
    "files ?w3 (path_join (OUTPUT_DIR rt) ''summary.json'')
      = files w (path_join (OUTPUT_DIR rt) ''summary.json'')"
    "files ?w3 (path_join (OUTPUT_DIR rt) ''website-stats.json'')
      = files w (path_join (OUTPUT_DIR rt) ''website-stats.json'')"
    by (simp_all add: steps collectors_files_frame)
  have cdc: "\<exists>d. files ?w3 (path_join (OUTPUT_DIR rt) ''cdc-hiv-aids.json'')
               = Some (JSON_stringify (dataset_json d) 2)
             \<and> source d = ''CDC - Centers for Disease Control and Prevention''"
    if writable: "writeFile_error rt (path_join (OUTPUT_DIR rt) ''cdc-hiv-aids.json'') = None"
  proof -
    obtain d where written:
      "\<And>w. files (snd (collectCDCData rt w)) (path_join (OUTPUT_DIR rt) ''cdc-hiv-aids.json'')
               = Some (JSON_stringify (dataset_json (d w)) 2)"
      "\<And>w. source (d w) = ''CDC - Centers for Disease Control and Prevention''"
      using collectors_write(1) [OF writable] by blast
    show ?thesis
      using written(2) by (simp add: steps collectors_files_frame written(1)) blast
  qed
  have missouri: "\<exists>d. files ?w3 (path_join (OUTPUT_DIR rt) ''missouri-doc.json'')
               = Some (JSON_stringify (dataset_json d) 2)
             \<and> source d = ''Missouri Department of Corrections''"
    if writable: "writeFile_error rt (path_join (OUTPUT_DIR rt) ''missouri-doc.json'') = None"
  proof -
    obtain d where written:
      "\<And>w. files (snd (collectMissouriData rt w)) (path_join (OUTPUT_DIR rt) ''missouri-doc.json'')
               = Some (JSON_stringify (dataset_json (d w)) 2)"
      "\<And>w. source (d w) = ''Missouri Department of Corrections''"
      using collectors_write(2) [OF writable] by blast
    show ?thesis
      using written(2) by (simp add: steps collectors_files_frame written(1)) blast
  qed
  have bjs: "\<exists>d. files ?w3 (path_join (OUTPUT_DIR rt) ''bjs-recidivism.json'')
               = Some (JSON_stringify (dataset_json d) 2)
             \<and> source d = ''Bureau of Justice Statistics (BJS)''"
    if writable: "writeFile_error rt (path_join (OUTPUT_DIR rt) ''bjs-recidivism.json'') = None"
  proof -
    obtain d where written:
      "\<And>w. files (snd (collectBJSData rt w)) (path_join (OUTPUT_DIR rt) ''bjs-recidivism.json'')
               = Some (JSON_stringify (dataset_json (d w)) 2)"
      "\<And>w. source (d w) = ''Bureau of Justice Statistics (BJS)''"
      using collectors_write(3) [OF writable] by blast
    show ?thesis
      using written(2) by (simp add: steps collectors_files_frame written(1)) blast
  qed
  from aggregator banners untouched cdc missouri bjs show ?thesis
    by blast
qed

text \<open>
  Witness for C10: on a fresh writable disk the run with \<^verbatim>\<open>--cdc --missouri --bjs\<close>
  prints the first line of the BJS Collector and not the one of the Aggregator, and the
  run without arguments prints the one of the Aggregator.
\<close>

theorem aggregator_runs_iff_all_witness:
  "fst (ensureOutputDir rt_offline fresh) = Inr ()
   \<and> Log [Str (newline @ bar_chart @ '' Creating Combined Summary...'')]
        \<notin> set (printed fresh (snd (main [''--cdc'', ''--missouri'', ''--bjs''] rt_offline fresh)))
   \<and> Log [Str (newline @ bar_chart @ '' Creating Combined Summary...'')]
        \<in> set (printed fresh (snd (main [] rt_offline fresh)))
   \<and> Log [Str (newline @ bar_chart @ '' Collecting Bureau of Justice Statistics Data...'')]
        \<in> set (printed fresh (snd (main [''--cdc'', ''--missouri'', ''--bjs''] rt_offline fresh)))"
proof -
  have ready: "fst (ensureOutputDir rt_offline fresh) = Inr ()"
    by (simp add: ensureOutputDir_apply rt_offline_def)
  from aggregator_runs_iff_all [OF ready, of "[''--cdc'', ''--missouri'', ''--bjs'']"]
  have "Log [Str (newline @ bar_chart @ '' Creating Combined Summary...'')]
        \<notin> set (printed fresh (snd (main [''--cdc'', ''--missouri'', ''--bjs''] rt_offline fresh)))"
    and "Log [Str (newline @ bar_chart @ '' Collecting Bureau of Justice Statistics Data...'')]
        \<in> set (printed fresh (snd (main [''--cdc'', ''--missouri'', ''--bjs''] rt_offline fresh)))"
    by simp_all
  moreover from aggregator_runs_iff_all [OF ready, of "[]"]
  have "Log [Str (newline @ bar_chart @ '' Creating Combined Summary...'')]
        \<in> set (printed fresh (snd (main [] rt_offline fresh)))"
    by simp
  ultimately show ?thesis
    using ready by simp
qed

end
